theory Spec2Isabelle
  imports Main "HOL-Library.AList" "HOL-Library.Word"
begin

section \<open>The remote backend and the provider module\<close>

text \<open>
  The provider module (class \<open>SecretProvider\<close>) talks to GCP Secret Manager through the
  client library. The library and the service are not part of the repository; the
  provider's methods are embedded from their source, on top of a model of the service.
\<close>

datatype grpc_error = NOT_FOUND | ALREADY_EXISTS | PERMISSION_DENIED

datatype api_call =
    ListSecretsCall
  | GetSecretCall string
  | ListSecretVersionsCall string nat
  | CreateSecretCall string
  | AddSecretVersionCall string string
  | DeleteSecretCall string

record secret_version =
  payload :: string
  createTime :: nat

text \<open>
  Modelled from the spec: the remote secret-management backend, which section 6 describes
  as a keyed blob store scoped to one project, with the operations check-exists,
  get-status, create, append-version, delete and list. A secret is a key with its
  versions, oldest first. \<open>calls\<close> is the log of the requests received, \<open>clock\<close> the
  service's time in seconds, and \<open>permitted\<close> says whether the ambient credentials may
  access the project (gRPC code 7 otherwise). Requests on an absent key answer code 5,
  a create on a present key answers code 6.
\<close>

record backend =
  store :: "(string \<times> secret_version list) list"
  permitted :: bool
  clock :: nat
  calls :: "api_call list"

definition logged :: "api_call \<Rightarrow> backend \<Rightarrow> backend" where
  "logged c b = b\<lparr>calls := calls b @ [c]\<rparr>"

definition api_getSecret :: "backend \<Rightarrow> string \<Rightarrow> (grpc_error + unit) \<times> backend" where
  "api_getSecret b name =
     (if \<not> permitted b then (Inl PERMISSION_DENIED, logged (GetSecretCall name) b)
      else case map_of (store b) name of
             None \<Rightarrow> (Inl NOT_FOUND, logged (GetSecretCall name) b)
           | Some vs \<Rightarrow> (Inr (), logged (GetSecretCall name) b))"

text \<open>
  \<open>listSecretVersions\<close> answers one page, newest version first; with
  \<open>autoPaginate: false\<close> the caller receives that first page only, which holds at most
  \<open>pageSize\<close> versions.
\<close>

definition api_listSecretVersions ::
  "backend \<Rightarrow> string \<Rightarrow> nat \<Rightarrow> (grpc_error + secret_version list) \<times> backend" where
  "api_listSecretVersions b name pageSize =
     (if \<not> permitted b then (Inl PERMISSION_DENIED, logged (ListSecretVersionsCall name pageSize) b)
      else case map_of (store b) name of
             None \<Rightarrow> (Inl NOT_FOUND, logged (ListSecretVersionsCall name pageSize) b)
           | Some vs \<Rightarrow> (Inr (take pageSize (rev vs)), logged (ListSecretVersionsCall name pageSize) b))"

definition api_createSecret :: "backend \<Rightarrow> string \<Rightarrow> (grpc_error + string) \<times> backend" where
  "api_createSecret b secretId =
     (if \<not> permitted b then (Inl PERMISSION_DENIED, logged (CreateSecretCall secretId) b)
      else case map_of (store b) secretId of
             Some vs \<Rightarrow> (Inl ALREADY_EXISTS, logged (CreateSecretCall secretId) b)
           | None \<Rightarrow> (Inr secretId,
                      logged (CreateSecretCall secretId) (b\<lparr>store := store b @ [(secretId, [])]\<rparr>)))"

definition api_addSecretVersion ::
  "backend \<Rightarrow> string \<Rightarrow> string \<Rightarrow> (grpc_error + unit) \<times> backend" where
  "api_addSecretVersion b name data =
     (if \<not> permitted b then (Inl PERMISSION_DENIED, logged (AddSecretVersionCall name data) b)
      else case map_of (store b) name of
             None \<Rightarrow> (Inl NOT_FOUND, logged (AddSecretVersionCall name data) b)
           | Some vs \<Rightarrow>
               (Inr (),
                logged (AddSecretVersionCall name data)
                  (b\<lparr>store := AList.update name
                                   (vs @ [\<lparr>payload = data, createTime = clock b\<rparr>]) (store b)\<rparr>)))"

definition api_deleteSecret :: "backend \<Rightarrow> string \<Rightarrow> (grpc_error + unit) \<times> backend" where
  "api_deleteSecret b name =
     (if \<not> permitted b then (Inl PERMISSION_DENIED, logged (DeleteSecretCall name) b)
      else case map_of (store b) name of
             None \<Rightarrow> (Inl NOT_FOUND, logged (DeleteSecretCall name) b)
           | Some vs \<Rightarrow> (Inr (), logged (DeleteSecretCall name)
                                    (b\<lparr>store := AList.delete name (store b)\<rparr>)))"

definition api_listSecrets :: "backend \<Rightarrow> (grpc_error + string list) \<times> backend" where
  "api_listSecrets b =
     (if \<not> permitted b then (Inl PERMISSION_DENIED, logged ListSecretsCall b)
      else (Inr (map fst (store b)), logged ListSecretsCall b))"

subsection \<open>SecretProvider\<close>

text \<open>
  The methods take the state of the service and return it with their result; a rejected
  promise is \<open>Inl\<close> of the error. All names are relative to the provider's one project.
\<close>

record SecretStatus =
  st_remoteKey :: string
  st_exists :: bool
  lastUpdated :: "nat option"
  versionCount :: "nat option"

text \<open>\<open>initialize\<close>: one \<open>listSecrets\<close> request; any failure is rethrown.\<close>

definition initialize :: "backend \<Rightarrow> (grpc_error + unit) \<times> backend" where
  "initialize b =
     (case api_listSecrets b of
        (Inl e, b1) \<Rightarrow> (Inl e, b1)
      | (Inr names, b1) \<Rightarrow> (Inr (), b1))"

definition secretExists :: "backend \<Rightarrow> string \<Rightarrow> (grpc_error + bool) \<times> backend" where
  "secretExists b remoteKey =
     (case api_getSecret b remoteKey of
        (Inr u, b1) \<Rightarrow> (Inr True, b1)
      | (Inl e, b1) \<Rightarrow> (if e = NOT_FOUND then (Inr False, b1) else (Inl e, b1)))"

definition status_not_found :: "string \<Rightarrow> SecretStatus" where
  "status_not_found remoteKey =
     \<lparr>st_remoteKey = remoteKey, st_exists = False, lastUpdated = None, versionCount = None\<rparr>"

definition getSecretStatus :: "backend \<Rightarrow> string \<Rightarrow> (grpc_error + SecretStatus) \<times> backend" where
  "getSecretStatus b remoteKey =
     (case api_getSecret b remoteKey of
        (Inl e, b1) \<Rightarrow>
          (if e = NOT_FOUND then (Inr (status_not_found remoteKey), b1) else (Inl e, b1))
      | (Inr u, b1) \<Rightarrow>
          (case api_listSecretVersions b1 remoteKey 1 of
             (Inl e, b2) \<Rightarrow>
               (if e = NOT_FOUND then (Inr (status_not_found remoteKey), b2) else (Inl e, b2))
           | (Inr versions, b2) \<Rightarrow>
               (Inr \<lparr>st_remoteKey = remoteKey, st_exists = True,
                     lastUpdated = (case versions of [] \<Rightarrow> None
                                    | lastVersion # rest \<Rightarrow> Some (createTime lastVersion * 1000)),
                     versionCount = Some (length versions)\<rparr>, b2)))"

definition createSecret :: "backend \<Rightarrow> string \<Rightarrow> string \<Rightarrow> (grpc_error + unit) \<times> backend" where
  "createSecret b remoteKey val =
     (case api_createSecret b remoteKey of
        (Inl e, b1) \<Rightarrow> (Inl e, b1)
      | (Inr name, b1) \<Rightarrow> api_addSecretVersion b1 name val)"

definition updateSecret :: "backend \<Rightarrow> string \<Rightarrow> string \<Rightarrow> (grpc_error + unit) \<times> backend" where
  "updateSecret b remoteKey val = api_addSecretVersion b remoteKey val"

text \<open>\<open>upsertSecret\<close> answers \<open>created\<close>.\<close>

definition upsertSecret :: "backend \<Rightarrow> string \<Rightarrow> string \<Rightarrow> (grpc_error + bool) \<times> backend" where
  "upsertSecret b remoteKey val =
     (case secretExists b remoteKey of
        (Inl e, b1) \<Rightarrow> (Inl e, b1)
      | (Inr ex, b1) \<Rightarrow>
          (if ex then
             (case updateSecret b1 remoteKey val of
                (Inl e, b2) \<Rightarrow> (Inl e, b2)
              | (Inr u, b2) \<Rightarrow> (Inr False, b2))
           else
             (case createSecret b1 remoteKey val of
                (Inl e, b2) \<Rightarrow> (Inl e, b2)
              | (Inr u, b2) \<Rightarrow> (Inr True, b2))))"

definition deleteSecret :: "backend \<Rightarrow> string \<Rightarrow> (grpc_error + unit) \<times> backend" where
  "deleteSecret b remoteKey = api_deleteSecret b remoteKey"

definition listSecrets :: "backend \<Rightarrow> (grpc_error + string list) \<times> backend" where
  "listSecrets b = api_listSecrets b"

text \<open>The versions the service holds for a key, and an empty project.\<close>

definition versions_of :: "backend \<Rightarrow> string \<Rightarrow> secret_version list option" where
  "versions_of b k = map_of (store b) k"

definition empty_backend :: backend where
  "empty_backend = \<lparr>store = [], permitted = True, clock = 0, calls = []\<rparr>"

section \<open>Values documents\<close>

text \<open>
  A parsed YAML document is a JavaScript value. TypeScript's types are erased at run time,
  so the scanner meets whatever the document holds. A \<open>JObj\<close> lists its properties in the
  order \<open>Object.entries\<close> enumerates them; the parser rejects duplicate keys. Numbers
  are the integers and \<open>NaN\<close> (only their truthiness is ever used).
\<close>

datatype jsval =
    JUndefined
  | JNull
  | JBool bool
  | JNum int
  | JNaN
  | JStr string
  | JArr "jsval list"
  | JObj "(string \<times> jsval) list"

datatype js_error =
    TypeError | ReadError | YAMLParseError | RangeError | NoCharsetError | UnknownGeneratorType

fun truthy :: "jsval \<Rightarrow> bool" where
  "truthy JUndefined = False"
| "truthy JNull = False"
| "truthy (JBool b) = b"
| "truthy (JNum n) = (n \<noteq> 0)"
| "truthy JNaN = False"
| "truthy (JStr s) = (s \<noteq> [])"
| "truthy (JArr xs) = True"
| "truthy (JObj kvs) = True"

fun typeof :: "jsval \<Rightarrow> string" where
  "typeof JUndefined = ''undefined''"
| "typeof JNull = ''object''"
| "typeof (JBool b) = ''boolean''"
| "typeof (JNum n) = ''number''"
| "typeof JNaN = ''number''"
| "typeof (JStr s) = ''string''"
| "typeof (JArr xs) = ''object''"
| "typeof (JObj kvs) = ''object''"

text \<open>
  \<open>v.name\<close> for the property names the scanner reads (\<open>externalSecrets\<close>, \<open>enabled\<close>,
  \<open>remoteKey\<close>, \<open>secrets\<close>, \<open>generator\<close>, \<open>secretStore\<close>, \<open>refreshInterval\<close>,
  \<open>namespace\<close>, \<open>generate\<close>): a mapping answers its own property, \<open>null\<close> and
  \<open>undefined\<close> throw, every other value answers \<open>undefined\<close>.
\<close>

fun get_prop :: "jsval \<Rightarrow> string \<Rightarrow> js_error + jsval" where
  "get_prop JUndefined name = Inl TypeError"
| "get_prop JNull name = Inl TypeError"
| "get_prop (JObj kvs) name = Inr (case map_of kvs name of None \<Rightarrow> JUndefined | Some v \<Rightarrow> v)"
| "get_prop v name = Inr JUndefined"

text \<open>Optional chaining \<open>v?.name\<close>, which never throws.\<close>

fun opt_prop :: "jsval \<Rightarrow> string \<Rightarrow> jsval" where
  "opt_prop (JObj kvs) name = (case map_of kvs name of None \<Rightarrow> JUndefined | Some v \<Rightarrow> v)"
| "opt_prop v name = JUndefined"

text \<open>\<open>a || b\<close>.\<close>

definition js_or :: "jsval \<Rightarrow> jsval \<Rightarrow> jsval" where
  "js_or a b = (if truthy a then a else b)"

fun isArray :: "jsval \<Rightarrow> bool" where
  "isArray (JArr xs) = True"
| "isArray v = False"

fun array_items :: "jsval \<Rightarrow> jsval list" where
  "array_items (JArr xs) = xs"
| "array_items v = []"

section \<open>The scanner module\<close>

text \<open>
  The interface \<open>DiscoveredSecret\<close>. The scanner copies \<open>remoteKey\<close>, \<open>generator\<close>,
  \<open>secretStore\<close>, \<open>refreshInterval\<close> and \<open>namespace\<close> from the document without
  checking them, so in its output they are values of any type (\<open>DiscoveredSecret_js\<close>).
  The other modules are written against the declared types (\<open>DiscoveredSecret_ts\<close>,
  defined with the generator module).
\<close>

record ('key, 'gen, 'str, 'ns) DiscoveredSecret =
  sourceFile :: string
  deployment :: string
  chart :: string
  environment :: "string option"
  remoteKey :: 'key
  generator :: 'gen
  secretStore :: 'str
  refreshInterval :: 'str
  namespace :: 'ns

type_synonym DiscoveredSecret_js = "(jsval, jsval, jsval, jsval) DiscoveredSecret"

text \<open>
  The two shape predicates. Their argument is truthy where they are called, so the
  property reads in them do not throw; \<open>opt_prop\<close> reads the same value there.
\<close>

definition isSingleSecretConfig :: "jsval \<Rightarrow> bool" where
  "isSingleSecretConfig v =
     (truthy v \<and> typeof v = ''object'' \<and>
      typeof (opt_prop v ''enabled'') = ''boolean'' \<and>
      typeof (opt_prop v ''remoteKey'') = ''string'')"

definition isArraySecretsConfig :: "jsval \<Rightarrow> bool" where
  "isArraySecretsConfig v =
     (truthy v \<and> typeof v = ''object'' \<and>
      typeof (opt_prop v ''enabled'') = ''boolean'' \<and>
      isArray (opt_prop v ''secrets'') \<and>
      length (array_items (opt_prop v ''secrets'')) > 0)"

text \<open>
  The loop over \<open>externalSecrets.secrets\<close>: one descriptor per item; reading
  \<open>secretItem.remoteKey\<close> throws on a \<open>null\<close> item.
\<close>

fun push_items ::
  "(jsval \<Rightarrow> jsval \<Rightarrow> DiscoveredSecret_js) \<Rightarrow> jsval list \<Rightarrow> js_error + DiscoveredSecret_js list" where
  "push_items mk [] = Inr []"
| "push_items mk (secretItem # rest) =
     (case get_prop secretItem ''remoteKey'' of
        Inl e \<Rightarrow> Inl e
      | Inr rk \<Rightarrow>
          (case get_prop secretItem ''generator'' of
             Inl e \<Rightarrow> Inl e
           | Inr g \<Rightarrow>
               (case push_items mk rest of
                  Inl e \<Rightarrow> Inl e
                | Inr ds \<Rightarrow> Inr (mk rk g # ds))))"

definition extractSecretsFromChart ::
  "string \<Rightarrow> jsval \<Rightarrow> string \<Rightarrow> string \<Rightarrow> string option \<Rightarrow> js_error + DiscoveredSecret_js list" where
  "extractSecretsFromChart chartName chartConfig sourceFile' deployment' environment' =
     (let externalSecrets = opt_prop chartConfig ''externalSecrets'' in
      if \<not> truthy externalSecrets \<or> \<not> truthy (opt_prop externalSecrets ''enabled'') then Inr []
      else
        let secretStore' = js_or (opt_prop externalSecrets ''secretStore'') (JStr ''gcp-secretstore'');
            refreshInterval' = js_or (opt_prop externalSecrets ''refreshInterval'') (JStr ''1h'');
            namespace' = opt_prop chartConfig ''namespace'';
            mk = (\<lambda>rk g. \<lparr>sourceFile = sourceFile', deployment = deployment', chart = chartName,
                           environment = environment', remoteKey = rk, generator = g,
                           secretStore = secretStore', refreshInterval = refreshInterval',
                           namespace = namespace'\<rparr>)
        in
          if isSingleSecretConfig externalSecrets then
            Inr [mk (opt_prop externalSecrets ''remoteKey'') (opt_prop externalSecrets ''generator'')]
          else if isArraySecretsConfig externalSecrets then
            push_items mk (array_items (opt_prop externalSecrets ''secrets''))
          else Inr [])"

subsection \<open>File names\<close>

text \<open>\<open>s.split(c)\<close> for a one-character separator; the result is never empty.\<close>

fun split_on :: "char \<Rightarrow> string \<Rightarrow> string list" where
  "split_on c [] = [[]]"
| "split_on c (x # xs) =
     (if x = c then [] # split_on c xs
      else (case split_on c xs of [] \<Rightarrow> [[x]] | p # ps \<Rightarrow> (x # p) # ps))"

text \<open>\<open>s.includes(sub)\<close>.\<close>

fun str_includes :: "string \<Rightarrow> string \<Rightarrow> bool" where
  "str_includes [] sub = (sub = [])"
| "str_includes (c # cs) sub = (take (length sub) (c # cs) = sub \<or> str_includes cs sub)"

text \<open>
  \<open>basename(path, suffix)\<close> of \<open>path\<close>, for the paths \<open>resolve\<close> returns (absolute, no
  trailing slash): the last component, without the suffix when the component ends with
  it and is longer than it.
\<close>

definition last_component :: "string \<Rightarrow> string" where
  "last_component path = rev (takeWhile (\<lambda>c. c \<noteq> CHR ''/'') (rev path))"

definition basename :: "string \<Rightarrow> string \<Rightarrow> string" where
  "basename path suffix =
     (let comp = last_component path in
      if suffix \<noteq> [] \<and> length suffix < length comp \<and>
         drop (length comp - length suffix) comp = suffix
      then take (length comp - length suffix) comp
      else comp)"

text \<open>\<open>resolve(f)\<close> of a path \<open>glob\<close> returns (normalised, relative to \<open>cwd\<close> unless absolute).\<close>

definition resolve :: "string \<Rightarrow> string \<Rightarrow> string" where
  "resolve cwd' f = (if take 1 f = ''/'' then f else cwd' @ ''/'' @ f)"

text \<open>Decimal digits of an array index, the property names of an array.\<close>

fun show_nat :: "nat \<Rightarrow> string" where
  "show_nat n =
     (if n < 10 then [''0123456789'' ! n]
      else show_nat (n div 10) @ [''0123456789'' ! (n mod 10)])"

declare show_nat.simps [simp del]

text \<open>\<open>Object.entries(values)\<close> of a truthy value of type \<open>object\<close>.\<close>

fun object_entries :: "jsval \<Rightarrow> (string \<times> jsval) list" where
  "object_entries (JObj kvs) = kvs"
| "object_entries (JArr xs) = zip (map show_nat [0..<length xs]) xs"
| "object_entries v = []"

subsection \<open>parseValuesFile and scanValuesFiles\<close>

text \<open>
  What the scanner reads: the working directory, the matches of a glob pattern in it,
  and for a path the document \<open>parseYaml(readFileSync(path))\<close> or the exception either
  call throws.
\<close>

record file_system =
  cwd :: string
  glob :: "string \<Rightarrow> string list"
  load :: "string \<Rightarrow> js_error + jsval"

definition environment_tokens :: "string list" where
  "environment_tokens = [''staging'', ''production'', ''development'', ''dev'', ''stg'', ''prod'']"

text \<open>
  The loop over the top-level keys. The array \<open>secrets\<close> it pushes to is declared
  outside the \<open>try\<close> block: an exception thrown while a chart is read ends the loop,
  the \<open>catch\<close> block ignores it, and the descriptors pushed so far are returned.
\<close>

fun chart_loop ::
  "string \<Rightarrow> string \<Rightarrow> string option \<Rightarrow> (string \<times> jsval) list \<Rightarrow>
   DiscoveredSecret_js list \<Rightarrow> DiscoveredSecret_js list" where
  "chart_loop filePath deployment' environment' [] acc = acc"
| "chart_loop filePath deployment' environment' ((chartName, chartConfig) # rest) acc =
     (if chartName = ''global'' \<or> chartName = ''argocd''
      then chart_loop filePath deployment' environment' rest acc
      else
        (case extractSecretsFromChart chartName chartConfig filePath deployment' environment' of
           Inl e \<Rightarrow> acc
         | Inr chartSecrets \<Rightarrow>
             chart_loop filePath deployment' environment' rest (acc @ chartSecrets)))"

definition parseValuesFile :: "file_system \<Rightarrow> string \<Rightarrow> DiscoveredSecret_js list" where
  "parseValuesFile fs filePath =
     (case load fs filePath of
        Inl e \<Rightarrow> []
      | Inr values \<Rightarrow>
          if \<not> truthy values \<or> typeof values \<noteq> ''object'' then []
          else
            let fileName = basename filePath ''.yaml'';
                parts = split_on CHR ''-'' fileName;
                environment' =
                  (if length parts > 1 \<and> last parts \<in> set environment_tokens
                   then Some (last parts) else None);
                isInfrastructure = str_includes filePath ''/infrastructure/'';
                deployment' = (if isInfrastructure then ''infrastructure'' else fileName)
            in
              if isInfrastructure \<and> truthy (opt_prop values ''externalSecrets'') then
                (case extractSecretsFromChart fileName values filePath deployment' environment' of
                   Inl e \<Rightarrow> []
                 | Inr chartSecrets \<Rightarrow>
                     chart_loop filePath deployment' environment' (object_entries values) chartSecrets)
              else chart_loop filePath deployment' environment' (object_entries values) [])"

record ScanResults =
  secrets :: "DiscoveredSecret_js list"
  deploymentFiles :: "string list"
  infrastructureFiles :: "string list"
  totalSecrets :: nat
  secretsWithGenerator :: nat

definition patterns :: "string list" where
  "patterns = [''values/deployments/*.yaml'', ''values/infrastructure/*.yaml'']"

definition allFiles :: "file_system \<Rightarrow> string list" where
  "allFiles fs = concat (map (\<lambda>pattern. map (resolve (cwd fs)) (glob fs pattern)) patterns)"

text \<open>The deployment filter applies when \<open>options?.deployment\<close> is a non-empty string.\<close>

definition scanned_files :: "file_system \<Rightarrow> string option \<Rightarrow> string list" where
  "scanned_files fs deployment_option =
     (case deployment_option of
        None \<Rightarrow> allFiles fs
      | Some d \<Rightarrow>
          if d = [] then allFiles fs
          else filter (\<lambda>f. basename f ''.yaml'' = d) (allFiles fs))"

definition scanValuesFiles :: "file_system \<Rightarrow> string option \<Rightarrow> ScanResults" where
  "scanValuesFiles fs deployment_option =
     (let files = scanned_files fs deployment_option;
          allSecrets = concat (map (parseValuesFile fs) files)
      in \<lparr>secrets = allSecrets,
          deploymentFiles = filter (\<lambda>f. str_includes f ''/deployments/'') files,
          infrastructureFiles = filter (\<lambda>f. str_includes f ''/infrastructure/'') files,
          totalSecrets = length allSecrets,
          secretsWithGenerator =
            length (filter (\<lambda>s. truthy (opt_prop (generator s) ''generate'')) allSecrets)\<rparr>)"

subsection \<open>A small values tree\<close>

text \<open>
  Two deployment documents, one of which does not parse, and one infrastructure document.
\<close>

definition example_fs :: file_system where
  "example_fs =
     \<lparr>cwd = ''/repo'',
      glob = (\<lambda>pattern.
        if pattern = ''values/deployments/*.yaml''
        then [''values/deployments/acme-staging.yaml'', ''values/deployments/broken.yaml'']
        else if pattern = ''values/infrastructure/*.yaml''
        then [''values/infrastructure/external-dns.yaml'']
        else []),
      load = (\<lambda>path.
        if path = ''/repo/values/deployments/acme-staging.yaml''
        then Inr (JObj
          [(''global'', JObj [(''domain'', JStr ''example.com'')]),
           (''postgresql'', JObj
              [(''namespace'', JStr ''acme''),
               (''externalSecrets'', JObj
                  [(''enabled'', JBool True),
                   (''remoteKey'', JStr ''acme-staging-db-password''),
                   (''generator'', JObj [(''generate'', JBool True), (''type'', JStr ''password'')])])]),
           (''minio'', JObj
              [(''externalSecrets'', JObj
                  [(''enabled'', JBool True),
                   (''secrets'', JArr
                      [JObj [(''remoteKey'', JStr ''acme-staging-minio-user'')],
                       JObj [(''remoteKey'', JStr ''acme-staging-minio-password'')]])])])])
        else if path = ''/repo/values/deployments/broken.yaml''
        then Inl YAMLParseError
        else if path = ''/repo/values/infrastructure/external-dns.yaml''
        then Inr (JObj
          [(''externalSecrets'', JObj
              [(''enabled'', JBool True), (''remoteKey'', JStr ''cloudflare-token'')])])
        else Inl ReadError)\<rparr>"

section \<open>The generator module\<close>

type_synonym byte = "8 word"

text \<open>
  \<open>randomBytes(n)\<close> of the runtime's crypto module: a buffer of \<open>n\<close> bytes from
  the secure random source, or a \<open>RangeError\<close> when the size is negative or above the
  runtime's limit \<open>2^31 - 1\<close>. The bytes the source delivers are the parameter \<open>rnd\<close>.
\<close>

definition kMaxLength :: int where
  "kMaxLength = 2 ^ 31 - 1"

definition randomBytes :: "(nat \<Rightarrow> byte) \<Rightarrow> int \<Rightarrow> js_error + byte list" where
  "randomBytes rnd n =
     (if n < 0 \<or> n > kMaxLength then Inl RangeError else Inr (map rnd [0..<nat n]))"

text \<open>\<open>buffer.toString("hex")\<close>: two lower-case hexadecimal digits per byte.\<close>

definition hex_digits :: string where
  "hex_digits = ''0123456789abcdef''"

definition hex_byte :: "byte \<Rightarrow> string" where
  "hex_byte b = [hex_digits ! (unat b div 16), hex_digits ! (unat b mod 16)]"

definition to_hex :: "byte list \<Rightarrow> string" where
  "to_hex bytes = concat (map hex_byte bytes)"

text \<open>\<open>buffer.toString("base64")\<close>: the standard alphabet, padded with \<open>=\<close>.\<close>

definition base64_alphabet :: string where
  "base64_alphabet = ''ABCDEFGHIJKLMNOPQRSTUVWXYZabcdefghijklmnopqrstuvwxyz0123456789+/''"

fun base64_nat :: "nat list \<Rightarrow> string" where
  "base64_nat [] = []"
| "base64_nat [a] =
     [base64_alphabet ! (a div 4), base64_alphabet ! ((a mod 4) * 16), CHR ''='', CHR ''='']"
| "base64_nat [a, b] =
     [base64_alphabet ! (a div 4), base64_alphabet ! ((a mod 4) * 16 + b div 16),
      base64_alphabet ! ((b mod 16) * 4), CHR ''='']"
| "base64_nat (a # b # c # rest) =
     [base64_alphabet ! (a div 4), base64_alphabet ! ((a mod 4) * 16 + b div 16),
      base64_alphabet ! ((b mod 16) * 4 + c div 64), base64_alphabet ! (c mod 64)]
     @ base64_nat rest"

definition to_base64 :: "byte list \<Rightarrow> string" where
  "to_base64 bytes = base64_nat (map unat bytes)"

definition CHARSET_LOWERCASE :: string where
  "CHARSET_LOWERCASE = ''abcdefghijklmnopqrstuvwxyz''"

definition CHARSET_UPPERCASE :: string where
  "CHARSET_UPPERCASE = ''ABCDEFGHIJKLMNOPQRSTUVWXYZ''"

definition CHARSET_NUMBERS :: string where
  "CHARSET_NUMBERS = ''0123456789''"

definition CHARSET_SPECIAL :: string where
  "CHARSET_SPECIAL = ''!@#$%^&*()-_=+[]{}|;:,.<>?''"

record password_options =
  lowercase :: bool
  uppercase :: bool
  numbers :: bool
  special :: bool

text \<open>The default of the parameter \<open>options\<close>: every class enabled.\<close>

definition default_options :: password_options where
  "default_options = \<lparr>lowercase = True, uppercase = True, numbers = True, special = True\<rparr>"

definition generatePassword ::
  "(nat \<Rightarrow> byte) \<Rightarrow> int \<Rightarrow> password_options \<Rightarrow> js_error + string" where
  "generatePassword rnd len options =
     (let charset =
            (if lowercase options then CHARSET_LOWERCASE else []) @
            (if uppercase options then CHARSET_UPPERCASE else []) @
            (if numbers options then CHARSET_NUMBERS else []) @
            (if special options then CHARSET_SPECIAL else [])
      in
        if length charset = 0 then Inl NoCharsetError
        else
          (case randomBytes rnd len of
             Inl e \<Rightarrow> Inl e
           | Inr randomBytesBuffer \<Rightarrow>
               Inr (map (\<lambda>i. charset ! (unat (randomBytesBuffer ! i) mod length charset))
                      [0..<nat len])))"

definition generateKey :: "(nat \<Rightarrow> byte) \<Rightarrow> int \<Rightarrow> js_error + string" where
  "generateKey rnd len =
     generatePassword rnd len
       \<lparr>lowercase = True, uppercase = True, numbers = True, special = False\<rparr>"

definition generateToken :: "(nat \<Rightarrow> byte) \<Rightarrow> int \<Rightarrow> js_error + string" where
  "generateToken rnd len =
     (case randomBytes rnd len of Inl e \<Rightarrow> Inl e | Inr bytes \<Rightarrow> Inr (to_hex bytes))"

definition generateBase64String :: "(nat \<Rightarrow> byte) \<Rightarrow> int \<Rightarrow> js_error + string" where
  "generateBase64String rnd len =
     (case randomBytes rnd len of Inl e \<Rightarrow> Inl e | Inr bytes \<Rightarrow> Inr (to_base64 bytes))"

text \<open>
  The interface \<open>SecretGenerator\<close>; \<open>gen_type\<close> is its field \<open>type\<close> and \<open>gen_length\<close>
  its optional field \<open>length\<close>. The type is a string at run time, so the \<open>default\<close>
  branch of the switch can be reached.
\<close>

record SecretGenerator =
  generate :: bool
  gen_type :: string
  gen_length :: "int option"
  description :: "string option"

type_synonym DiscoveredSecret_ts =
  "(string, SecretGenerator option, string, string option) DiscoveredSecret"

text \<open>\<open>generator.length || 32\<close>: an absent length and the length 0 both give 32.\<close>

definition length_or_32 :: "int option \<Rightarrow> int" where
  "length_or_32 l = (case l of None \<Rightarrow> 32 | Some n \<Rightarrow> if n = 0 then 32 else n)"

definition generateSecretValue :: "(nat \<Rightarrow> byte) \<Rightarrow> SecretGenerator \<Rightarrow> js_error + string" where
  "generateSecretValue rnd generator' =
     (let len = length_or_32 (gen_length generator') in
      if gen_type generator' = ''password'' then generatePassword rnd len default_options
      else if gen_type generator' = ''key'' then generateKey rnd len
      else if gen_type generator' = ''token'' then generateToken rnd len
      else if gen_type generator' = ''string'' then generateBase64String rnd len
      else Inl UnknownGeneratorType)"

section \<open>The validator module\<close>

record condition =
  cond_type :: string
  cond_status :: string
  cond_reason :: "string option"
  cond_message :: "string option"

text \<open>
  What the validator reads of the ExternalSecret object that \<open>kubectl get externalsecret
  -o json\<close> prints: \<open>status.conditions\<close> (empty when absent), \<open>status.syncedTime\<close> and
  \<open>status.binding.name\<close>. A cluster answers for a name and a namespace; \<open>None\<close> is a
  failed command or unparsable output, which the inner \<open>catch\<close> reports as not found.
\<close>

record externalsecret =
  es_conditions :: "condition list"
  syncedTime :: "string option"
  binding_name :: "string option"

type_synonym cluster = "string \<Rightarrow> string \<Rightarrow> externalsecret option"

record ExternalSecretStatus =
  es_name :: string
  es_namespace :: string
  es_exists :: bool
  synced :: bool
  ready :: bool
  secretCreated :: bool
  lastSyncTime :: "string option"
  errorMessage :: "string option"
  conditions :: "condition list option"

text \<open>Truthiness of an optional string: present and not empty.\<close>

definition truthy_str :: "string option \<Rightarrow> bool" where
  "truthy_str s = (case s of None \<Rightarrow> False | Some t \<Rightarrow> t \<noteq> [])"

text \<open>\<open>c?.status === "True"\<close> and \<open>c?.message\<close> of the result of \<open>find\<close>.\<close>

definition status_is_True :: "condition option \<Rightarrow> bool" where
  "status_is_True c = (case c of None \<Rightarrow> False | Some d \<Rightarrow> cond_status d = ''True'')"

definition message_of :: "condition option \<Rightarrow> string option" where
  "message_of c = (case c of None \<Rightarrow> None | Some d \<Rightarrow> cond_message d)"

definition getExternalSecretStatus :: "cluster \<Rightarrow> string \<Rightarrow> string \<Rightarrow> ExternalSecretStatus" where
  "getExternalSecretStatus k8s name namespace' =
     (case k8s name namespace' of
        None \<Rightarrow>
          \<lparr>es_name = name, es_namespace = namespace', es_exists = False, synced = False,
           ready = False, secretCreated = False, lastSyncTime = None,
           errorMessage = Some ''ExternalSecret not found'', conditions = None\<rparr>
      | Some externalSecret \<Rightarrow>
          let conditions' = es_conditions externalSecret;
              readyCondition = find (\<lambda>c. cond_type c = ''Ready'') conditions';
              ready' = status_is_True readyCondition;
              syncedCondition = find (\<lambda>c. cond_type c = ''SecretSynced'') conditions';
              synced' = status_is_True syncedCondition;
              lastSyncTime' =
                (if truthy_str (syncedTime externalSecret) then syncedTime externalSecret else None);
              secretCreated' = truthy_str (binding_name externalSecret);
              errorMessage' =
                (if \<not> ready' \<and> truthy_str (message_of readyCondition)
                 then message_of readyCondition
                 else if \<not> synced' \<and> truthy_str (message_of syncedCondition)
                 then message_of syncedCondition
                 else None)
          in \<lparr>es_name = name, es_namespace = namespace', es_exists = True, synced = synced',
              ready = ready', secretCreated = secretCreated', lastSyncTime = lastSyncTime',
              errorMessage = errorMessage', conditions = Some conditions'\<rparr>)"

record DeploymentValidationResult =
  dv_deployment :: string
  dv_namespace :: string
  externalSecrets :: "ExternalSecretStatus list"
  allSynced :: bool
  allReady :: bool
  dv_errorCount :: nat

record ValidationResult =
  success :: bool
  deployments :: "DeploymentValidationResult list"
  totalExternalSecrets :: nat
  syncedCount :: nat
  readyCount :: nat
  errorCount :: nat

text \<open>
  The grouping loop. A JavaScript \<open>Map\<close> is an association list in insertion order with
  distinct keys; \<open>set\<close> on a present key replaces the value in place, which is
  \<open>AList.update\<close>. The key is \<open>`${secret.deployment}:${secret.namespace || "default"}`\<close>.
\<close>

definition namespace_or_default :: "DiscoveredSecret_ts \<Rightarrow> string" where
  "namespace_or_default secret =
     (case namespace secret of None \<Rightarrow> ''default'' | Some n \<Rightarrow> if n = [] then ''default'' else n)"

definition group_key :: "DiscoveredSecret_ts \<Rightarrow> string" where
  "group_key secret = deployment secret @ '':'' @ namespace_or_default secret"

definition group_step ::
  "(string \<times> DiscoveredSecret_ts list) list \<Rightarrow> DiscoveredSecret_ts \<Rightarrow>
   (string \<times> DiscoveredSecret_ts list) list" where
  "group_step grouped secret =
     (let key = group_key secret;
          existing = (case map_of grouped key of None \<Rightarrow> [] | Some xs \<Rightarrow> xs)
      in AList.update key (existing @ [secret]) grouped)"

definition group_secrets :: "DiscoveredSecret_ts list \<Rightarrow> (string \<times> DiscoveredSecret_ts list) list" where
  "group_secrets secrets' = foldl group_step [] secrets'"

text \<open>
  The body of the loop over the groups: \<open>const [deployment, namespace] = key.split(":")\<close>
  takes the first two parts of the key (a missing second part would be \<open>undefined\<close>),
  every secret of the group is looked up as \<open>`${secret.chart}-credentials`\<close> in that
  namespace, and the result is stored under the deployment name alone.
\<close>

definition key_parts :: "string \<Rightarrow> string \<times> string" where
  "key_parts key =
     (case split_on CHR '':'' key of
        [] \<Rightarrow> ([], ''undefined'')
      | [d] \<Rightarrow> (d, ''undefined'')
      | d # n # rest \<Rightarrow> (d, n))"

definition validate_group ::
  "cluster \<Rightarrow> string \<Rightarrow> DiscoveredSecret_ts list \<Rightarrow> DeploymentValidationResult" where
  "validate_group k8s key secretGroup =
     (let deployment' = fst (key_parts key);
          namespace' = snd (key_parts key);
          externalSecretStatuses =
            map (\<lambda>secret. getExternalSecretStatus k8s (chart secret @ ''-credentials'') namespace')
              secretGroup
      in \<lparr>dv_deployment = deployment', dv_namespace = namespace',
          externalSecrets = externalSecretStatuses,
          allSynced = list_all synced externalSecretStatuses,
          allReady = list_all ready externalSecretStatuses,
          dv_errorCount = length (filter (\<lambda>s. \<not> ready s) externalSecretStatuses)\<rparr>)"

definition validate_step ::
  "cluster \<Rightarrow> (string \<times> DeploymentValidationResult) list \<Rightarrow>
   string \<times> DiscoveredSecret_ts list \<Rightarrow> (string \<times> DeploymentValidationResult) list" where
  "validate_step k8s deploymentResults entry =
     (let result = validate_group k8s (fst entry) (snd entry)
      in AList.update (dv_deployment result) result deploymentResults)"

definition validateExternalSecrets :: "cluster \<Rightarrow> DiscoveredSecret_ts list \<Rightarrow> ValidationResult" where
  "validateExternalSecrets k8s secrets' =
     (let grouped = group_secrets secrets';
          deploymentResults = foldl (validate_step k8s) [] grouped;
          deployments' = map snd deploymentResults;
          totalExternalSecrets' =
            foldl (\<lambda>sum d. sum + length (externalSecrets d)) 0 deployments';
          syncedCount' =
            foldl (\<lambda>sum d. sum + length (filter synced (externalSecrets d))) 0 deployments';
          readyCount' =
            foldl (\<lambda>sum d. sum + length (filter ready (externalSecrets d))) 0 deployments';
          errorCount' = foldl (\<lambda>sum d. sum + dv_errorCount d) 0 deployments'
      in \<lparr>success = (errorCount' = 0 \<and> syncedCount' = totalExternalSecrets'),
          deployments = deployments',
          totalExternalSecrets = totalExternalSecrets',
          syncedCount = syncedCount',
          readyCount = readyCount',
          errorCount = errorCount'\<rparr>)"

text \<open>
  The requests the validation makes, in order: one per descriptor, whether or not the
  group's result survives in the map.
\<close>

definition validation_polls :: "DiscoveredSecret_ts list \<Rightarrow> (string \<times> string) list" where
  "validation_polls secrets' =
     concat (map (\<lambda>entry. map (\<lambda>secret. (chart secret @ ''-credentials'', snd (key_parts (fst entry))))
                            (snd entry))
                 (group_secrets secrets'))"

subsection \<open>waitForExternalSecretSync\<close>

record wait_result =
  w_synced :: bool
  w_ready :: bool
  w_error :: "string option"

definition pollInterval :: nat where
  "pollInterval = 2000"

definition default_timeoutMs :: int where
  "default_timeoutMs = 60000"

text \<open>
  The polling loop. \<open>elapsed\<close> is \<open>Date.now() - startTime\<close> in milliseconds, 0 when the
  loop condition is first evaluated; the cluster is read as it is at that time; a status
  request takes \<open>latency\<close> milliseconds and the sleep \<open>pollInterval\<close>.
\<close>

function wait_loop ::
  "(nat \<Rightarrow> cluster) \<Rightarrow> nat \<Rightarrow> string \<Rightarrow> string \<Rightarrow> int \<Rightarrow> nat \<Rightarrow> wait_result" where
  "wait_loop k8s_at latency name namespace' timeoutMs elapsed =
     (if int elapsed < timeoutMs then
        (let status = getExternalSecretStatus (k8s_at elapsed) name namespace' in
         if ready status \<and> synced status then
           \<lparr>w_synced = True, w_ready = True, w_error = None\<rparr>
         else if truthy_str (errorMessage status) then
           \<lparr>w_synced = False, w_ready = False, w_error = errorMessage status\<rparr>
         else wait_loop k8s_at latency name namespace' timeoutMs (elapsed + latency + pollInterval))
      else \<lparr>w_synced = False, w_ready = False,
            w_error = Some ''Timeout waiting for ExternalSecret to sync''\<rparr>)"
  by pat_completeness auto
termination
  by (relation "measure (\<lambda>(k8s_at, latency, name, namespace', timeoutMs, elapsed).
        nat (timeoutMs - int elapsed))")
     (auto simp: pollInterval_def)

declare wait_loop.simps [simp del]

definition waitForExternalSecretSync ::
  "(nat \<Rightarrow> cluster) \<Rightarrow> nat \<Rightarrow> string \<Rightarrow> string \<Rightarrow> int \<Rightarrow> wait_result" where
  "waitForExternalSecretSync k8s_at latency name namespace' timeoutMs =
     wait_loop k8s_at latency name namespace' timeoutMs 0"

text \<open>
  For the statements about the loop: a status on which the loop body takes neither exit,
  and the status the loop reads at elapsed time \<open>t\<close>.
\<close>

definition pending :: "ExternalSecretStatus \<Rightarrow> bool" where
  "pending status = (\<not> (ready status \<and> synced status) \<and> \<not> truthy_str (errorMessage status))"

definition status_at :: "(nat \<Rightarrow> cluster) \<Rightarrow> string \<Rightarrow> string \<Rightarrow> nat \<Rightarrow> ExternalSecretStatus" where
  "status_at k8s_at name namespace' t = getExternalSecretStatus (k8s_at t) name namespace'"

definition timed_out :: wait_result where
  "timed_out = \<lparr>w_synced = False, w_ready = False,
                w_error = Some ''Timeout waiting for ExternalSecret to sync''\<rparr>"

subsection \<open>A small cluster\<close>

text \<open>
  One deployment whose charts live in two namespaces: the delivery object of \<open>api\<close> in
  \<open>web\<close> reports an error, that of \<open>worker\<close> in \<open>jobs\<close> is ready and synced.
\<close>

definition example_k8s :: cluster where
  "example_k8s name namespace' =
     (if name = ''worker-credentials'' \<and> namespace' = ''jobs'' then
        Some \<lparr>es_conditions =
                 [\<lparr>cond_type = ''Ready'', cond_status = ''True'',
                   cond_reason = Some ''SecretSynced'', cond_message = Some ''Secret was synced''\<rparr>,
                  \<lparr>cond_type = ''SecretSynced'', cond_status = ''True'',
                   cond_reason = None, cond_message = None\<rparr>],
               syncedTime = Some ''2025-01-01T00:00:00Z'',
               binding_name = Some ''worker-credentials''\<rparr>
      else if name = ''api-credentials'' \<and> namespace' = ''web'' then
        Some \<lparr>es_conditions =
                 [\<lparr>cond_type = ''Ready'', cond_status = ''False'',
                   cond_reason = Some ''SecretSyncedError'',
                   cond_message = Some ''could not get secret data from provider''\<rparr>],
               syncedTime = None, binding_name = None\<rparr>
      else None)"

text \<open>The same cluster over time: the delivery object of \<open>worker\<close> has no conditions yet
  during the first four seconds.\<close>

definition example_k8s_at :: "nat \<Rightarrow> cluster" where
  "example_k8s_at t =
     (if t < 4000 then
        (\<lambda>name namespace'.
           if name = ''worker-credentials'' \<and> namespace' = ''jobs''
           then Some \<lparr>es_conditions = [], syncedTime = None, binding_name = None\<rparr>
           else example_k8s name namespace')
      else example_k8s)"

definition example_secret :: "string \<Rightarrow> string \<Rightarrow> string \<Rightarrow> DiscoveredSecret_ts" where
  "example_secret chart' namespace' remoteKey' =
     \<lparr>sourceFile = ''/repo/values/deployments/acme-staging.yaml'', deployment = ''acme-staging'',
      chart = chart', environment = Some ''staging'', remoteKey = remoteKey',
      generator = Some \<lparr>generate = True, gen_type = ''password'', gen_length = Some 8,
                         description = None\<rparr>,
      secretStore = ''gcp-secretstore'', refreshInterval = ''1h'',
      namespace = Some namespace'\<rparr>"

definition example_secrets :: "DiscoveredSecret_ts list" where
  "example_secrets =
     [example_secret ''api'' ''web'' ''acme-staging-api-key'',
      example_secret ''worker'' ''jobs'' ''acme-staging-worker-key'']"

section \<open>The secrets command line\<close>

text \<open>
  The commands of \<open>scripts/secrets.ts\<close>. Terminal output and the detection of the
  project id are left out; the commands are given the flags, the answers of the user and
  the descriptors \<open>scanValuesFiles\<close> returns (typed as the interface declares them). The
  world they act on is the backend, with its log of requests, and the log of the
  ExternalSecret objects read from the cluster.
\<close>

subsection \<open>checkSecrets\<close>

text \<open>
  \<open>Promise.all(batch.map(getSecretStatus))\<close>: every request of the batch is issued; the
  batch fails when one of them fails.
\<close>

fun get_statuses :: "backend \<Rightarrow> string list \<Rightarrow> (grpc_error + SecretStatus) list \<times> backend" where
  "get_statuses b [] = ([], b)"
| "get_statuses b (key # keys) =
     (case getSecretStatus b key of
        (r, b1) \<Rightarrow> (case get_statuses b1 keys of (rs, b2) \<Rightarrow> (r # rs, b2)))"

fun all_fulfilled :: "(grpc_error + SecretStatus) list \<Rightarrow> grpc_error + SecretStatus list" where
  "all_fulfilled [] = Inr []"
| "all_fulfilled (Inl e # rs) = Inl e"
| "all_fulfilled (Inr st # rs) =
     (case all_fulfilled rs of Inl e \<Rightarrow> Inl e | Inr sts \<Rightarrow> Inr (st # sts))"

definition CONCURRENCY :: nat where
  "CONCURRENCY = 10"

function checkSecrets_from ::
  "backend \<Rightarrow> string list \<Rightarrow> (string \<times> SecretStatus) list \<Rightarrow>
   (grpc_error + (string \<times> SecretStatus) list) \<times> backend" where
  "checkSecrets_from b remoteKeys results =
     (if remoteKeys = [] then (Inr results, b)
      else
        (case get_statuses b (take CONCURRENCY remoteKeys) of
           (rs, b1) \<Rightarrow>
             (case all_fulfilled rs of
                Inl e \<Rightarrow> (Inl e, b1)
              | Inr statuses \<Rightarrow>
                  checkSecrets_from b1 (drop CONCURRENCY remoteKeys)
                    (foldl (\<lambda>m status. AList.update (st_remoteKey status) status m)
                       results statuses))))"
  by pat_completeness auto
termination
  by (relation "measure (\<lambda>(b, remoteKeys, results). length remoteKeys)")
     (auto simp: CONCURRENCY_def)

declare checkSecrets_from.simps [simp del]

definition checkSecrets ::
  "backend \<Rightarrow> string list \<Rightarrow> (grpc_error + (string \<times> SecretStatus) list) \<times> backend" where
  "checkSecrets b remoteKeys = checkSecrets_from b remoteKeys []"

subsection \<open>The commands\<close>

record cli_env =
  dry_run :: bool
  yes :: bool
  configured :: bool
  discovered :: "DiscoveredSecret_ts list"
  confirm_answer :: bool
  password_answer :: "string \<Rightarrow> string \<Rightarrow> string"
  entropy :: "nat \<Rightarrow> nat \<Rightarrow> byte"
  kube :: cluster
  interference :: "backend \<Rightarrow> backend"

text \<open>
  \<open>configured\<close>: \<open>readClusterSecretStoreFromValues()\<close> finds a project id.
  \<open>confirm_answer\<close> and \<open>password_answer chart remoteKey\<close>: what the user answers to
  \<open>promptConfirm\<close> and \<open>promptPassword\<close>. \<open>entropy n\<close>: the bytes the \<open>n\<close>-th call of
  \<open>randomBytes\<close> draws. \<open>interference\<close>: what other clients of the project do to the
  backend between the status check of \<open>generate\<close> and its writes, while the command
  prompts (the identity when the project has no other client).
\<close>

record world =
  gcp :: backend
  polls :: "(string \<times> string) list"

datatype outcome = Returned | Exited nat

definition discoverCommand :: "cli_env \<Rightarrow> world \<Rightarrow> outcome \<times> world" where
  "discoverCommand env w = (Returned, w)"

definition checkCommand :: "cli_env \<Rightarrow> world \<Rightarrow> outcome \<times> world" where
  "checkCommand env w =
     (if \<not> configured env then (Exited 1, w)
      else if length (discovered env) = 0 then (Returned, w)
      else
        (case (if \<not> dry_run env then initialize (gcp w) else (Inr (), gcp w)) of
           (Inl e, b1) \<Rightarrow> (Exited 1, w\<lparr>gcp := b1\<rparr>)
         | (Inr u, b1) \<Rightarrow>
             (case (if dry_run env then (Inr [], b1)
                    else checkSecrets b1 (map remoteKey (discovered env))) of
                (Inl e, b2) \<Rightarrow> (Exited 1, w\<lparr>gcp := b2\<rparr>)
              | (Inr statuses, b2) \<Rightarrow> (Returned, w\<lparr>gcp := b2\<rparr>))))"

text \<open>\<open>s.generator?.generate\<close> and \<open>!status?.exists\<close>.\<close>

definition wants_generate :: "DiscoveredSecret_ts \<Rightarrow> bool" where
  "wants_generate s = (case generator s of None \<Rightarrow> False | Some g \<Rightarrow> generate g)"

definition is_missing :: "(string \<times> SecretStatus) list \<Rightarrow> DiscoveredSecret_ts \<Rightarrow> bool" where
  "is_missing statuses s =
     (\<not> (case map_of statuses (remoteKey s) of None \<Rightarrow> False | Some status \<Rightarrow> st_exists status))"

text \<open>
  The three loops of \<open>generate\<close>: the generated values and the prompted values are set in
  the map \<open>secretValues\<close>, keyed by remote key; then every entry of the map is created. An
  exception of \<open>generateSecretValue\<close> leaves the command; a failed \<open>createSecret\<close> is
  caught, logged and not counted.
\<close>

fun generate_values ::
  "(nat \<Rightarrow> nat \<Rightarrow> byte) \<Rightarrow> nat \<Rightarrow> DiscoveredSecret_ts list \<Rightarrow> (string \<times> string) list \<Rightarrow>
   js_error + (string \<times> string) list" where
  "generate_values rnd n [] secretValues = Inr secretValues"
| "generate_values rnd n (secret # rest) secretValues =
     (case generator secret of
        None \<Rightarrow> generate_values rnd n rest secretValues
      | Some g \<Rightarrow>
          (case generateSecretValue (rnd n) g of
             Inl e \<Rightarrow> Inl e
           | Inr v \<Rightarrow>
               generate_values rnd (Suc n) rest (AList.update (remoteKey secret) v secretValues)))"

fun prompt_values ::
  "(string \<Rightarrow> string \<Rightarrow> string) \<Rightarrow> DiscoveredSecret_ts list \<Rightarrow> (string \<times> string) list \<Rightarrow>
   (string \<times> string) list" where
  "prompt_values answer [] secretValues = secretValues"
| "prompt_values answer (secret # rest) secretValues =
     prompt_values answer rest
       (AList.update (remoteKey secret) (answer (chart secret) (remoteKey secret)) secretValues)"

fun create_secrets :: "backend \<Rightarrow> (string \<times> string) list \<Rightarrow> nat \<times> backend" where
  "create_secrets b [] = (0, b)"
| "create_secrets b ((remoteKey', val) # rest) =
     (case createSecret b remoteKey' val of
        (Inr u, b1) \<Rightarrow> (case create_secrets b1 rest of (created, b2) \<Rightarrow> (Suc created, b2))
      | (Inl e, b1) \<Rightarrow> create_secrets b1 rest)"

definition generateCommand :: "cli_env \<Rightarrow> world \<Rightarrow> outcome \<times> world" where
  "generateCommand env w =
     (if \<not> configured env then (Exited 1, w)
      else if length (discovered env) = 0 then (Returned, w)
      else
        (case (if \<not> dry_run env then initialize (gcp w) else (Inr (), gcp w)) of
           (Inl e, b1) \<Rightarrow> (Exited 1, w\<lparr>gcp := b1\<rparr>)
         | (Inr u, b1) \<Rightarrow>
             (case (if dry_run env then (Inr [], b1)
                    else checkSecrets b1 (map remoteKey (discovered env))) of
                (Inl e, b2) \<Rightarrow> (Exited 1, w\<lparr>gcp := b2\<rparr>)
              | (Inr statuses, b2) \<Rightarrow>
                  (let missing = filter (is_missing statuses) (discovered env);
                       autoGenerate = filter wants_generate missing;
                       manualInput = filter (\<lambda>s. \<not> wants_generate s) missing
                   in
                     if length missing = 0 then (Returned, w\<lparr>gcp := b2\<rparr>)
                     else if \<not> yes env \<and> \<not> dry_run env \<and> \<not> confirm_answer env
                     then (Returned, w\<lparr>gcp := b2\<rparr>)
                     else if dry_run env then (Returned, w\<lparr>gcp := b2\<rparr>)
                     else
                       (case generate_values (entropy env) 0 autoGenerate [] of
                          Inl e \<Rightarrow> (Exited 1, w\<lparr>gcp := b2\<rparr>)
                        | Inr generated \<Rightarrow>
                            (let secretValues =
                                   prompt_values (password_answer env) manualInput generated
                             in case create_secrets (interference env b2) secretValues of
                                  (created, b3) \<Rightarrow> (Returned, w\<lparr>gcp := b3\<rparr>)))))))"

definition validateCommand :: "cli_env \<Rightarrow> world \<Rightarrow> outcome \<times> world" where
  "validateCommand env w =
     (if length (discovered env) = 0 then (Returned, w)
      else
        (let validation = validateExternalSecrets (kube env) (discovered env);
             w1 = w\<lparr>polls := polls w @ validation_polls (discovered env)\<rparr>
         in if success validation then (Returned, w1) else (Exited 1, w1)))"

text \<open>\<open>process.exit\<close> in a step ends the workflow.\<close>

definition syncCommand :: "cli_env \<Rightarrow> world \<Rightarrow> outcome \<times> world" where
  "syncCommand env w =
     (case discoverCommand env w of
        (Exited c, w1) \<Rightarrow> (Exited c, w1)
      | (Returned, w1) \<Rightarrow>
          (case checkCommand env w1 of
             (Exited c, w2) \<Rightarrow> (Exited c, w2)
           | (Returned, w2) \<Rightarrow>
               (case generateCommand env w2 of
                  (Exited c, w3) \<Rightarrow> (Exited c, w3)
                | (Returned, w3) \<Rightarrow>
                    (if \<not> dry_run env then validateCommand env w3 else (Returned, w3)))))"

text \<open>The two requests \<open>createSecret\<close> can make.\<close>

fun is_create_or_add :: "api_call \<Rightarrow> bool" where
  "is_create_or_add (CreateSecretCall secretId) = True"
| "is_create_or_add (AddSecretVersionCall name data) = True"
| "is_create_or_add c = False"


subsection \<open>A run of the command line\<close>


definition example_env :: cli_env where
  "example_env =
     \<lparr>dry_run = False, yes = True, configured = True, discovered = example_secrets,
      confirm_answer = True, password_answer = (\<lambda>chart' remoteKey'. ''typed-by-hand''),
      entropy = (\<lambda>n i. word_of_nat (37 * i + 11 * n)), kube = example_k8s,
      interference = (\<lambda>b. b)\<rparr>"

definition empty_world :: world where
  "empty_world = \<lparr>gcp = empty_backend, polls = []\<rparr>"

section \<open>Properties of the provider\<close>

lemma versions_of_logged [simp]: "versions_of (logged c b) k = versions_of b k"
  by (simp add: versions_of_def logged_def)

lemma permitted_logged [simp]: "permitted (logged c b) = permitted b"
  by (simp add: logged_def)

lemma secretExists_result:
  "permitted b \<Longrightarrow>
   secretExists b k = (Inr (versions_of b k \<noteq> None), logged (GetSecretCall k) b)"
  by (auto simp: secretExists_def api_getSecret_def versions_of_def split: option.splits)

lemma createSecret_absent:
  assumes "permitted b" and "versions_of b k = None"
  shows "\<exists>b'. createSecret b k v = (Inr (), b') \<and> permitted b' \<and>
               versions_of b' k = Some [\<lparr>payload = v, createTime = clock b\<rparr>]"
  using assms
  by (simp add: createSecret_def api_createSecret_def api_addSecretVersion_def versions_of_def
      logged_def update_conv' map_add_def)

lemma updateSecret_present:
  assumes "permitted b" and "versions_of b k = Some vs"
  shows "\<exists>b'. updateSecret b k v = (Inr (), b') \<and> permitted b' \<and>
               versions_of b' k = Some (vs @ [\<lparr>payload = v, createTime = clock b\<rparr>])"
  using assms
  by (simp add: updateSecret_def api_addSecretVersion_def versions_of_def logged_def update_conv')

lemma getSecretStatus_versionCount_le_1:
  "getSecretStatus b k = (Inr st, b') \<Longrightarrow> versionCount st = Some n \<Longrightarrow> n \<le> 1"
  by (auto simp: getSecretStatus_def api_getSecret_def api_listSecretVersions_def
      status_not_found_def split: if_splits option.splits)

text \<open>
  C1. On a key absent from the backend, \<open>upsert(k, v1)\<close> then \<open>upsert(k, v2)\<close> do not
  fail (the first creates, the second adds a version) and the backend then holds two
  versions of the key; but the following \<open>status(k)\<close>, which lists versions with page size
  1 and reports the length of that page, answers \<open>versionCount = 1\<close>, not 2.
\<close>

theorem upsert_twice_status_versionCount:
  "(case upsertSecret empty_backend ''env-db-password'' ''v1'' of
      (r1, b1) \<Rightarrow>
        (case upsertSecret b1 ''env-db-password'' ''v2'' of
           (r2, b2) \<Rightarrow>
             (r1, r2, map_option length (versions_of b2 ''env-db-password''),
              map_sum id (\<lambda>st. (st_exists st, versionCount st))
                (fst (getSecretStatus b2 ''env-db-password'')))))
   = (Inr True, Inr False, Some 2, Inr (True, Some 1))"
  by (simp add: upsertSecret_def secretExists_def createSecret_def updateSecret_def
      getSecretStatus_def api_getSecret_def api_createSecret_def api_addSecretVersion_def
      api_listSecretVersions_def versions_of_def empty_backend_def logged_def)

section \<open>Properties of the scanner\<close>


lemma truthy_get_prop: "truthy v \<Longrightarrow> get_prop v name = Inr (opt_prop v name)"
  by (cases v) auto

lemma push_items_ok:
  "\<forall>item \<in> set items. item \<noteq> JNull \<and> item \<noteq> JUndefined \<Longrightarrow>
   \<exists>ds. push_items mk items = Inr ds \<and> length ds = length items \<and>
        (\<forall>d \<in> set ds. \<exists>rk g. d = mk rk g)"
proof (induction items)
  case Nil
  then show ?case by simp
next
  case (Cons item items)
  then obtain ds where ds: "push_items mk items = Inr ds" "length ds = length items"
      "\<forall>d \<in> set ds. \<exists>rk g. d = mk rk g"
    by auto
  from Cons.prems have "item \<noteq> JNull" "item \<noteq> JUndefined" by auto
  then obtain rk g where "get_prop item ''remoteKey'' = Inr rk" "get_prop item ''generator'' = Inr g"
    by (cases item) auto
  with ds show ?case by auto
qed

text \<open>
  C4, as stated, fails: a block with a boolean enable flag and a remote-key string matches
  Shape A, but when the flag is \<open>false\<close> the guard at the head of
  \<open>extractSecretsFromChart\<close> returns no descriptor.
\<close>

theorem shape_A_disabled_counterexample:
  "isSingleSecretConfig (JObj [(''enabled'', JBool False), (''remoteKey'', JStr ''db-password'')]) \<and>
   extractSecretsFromChart ''postgresql''
     (JObj [(''externalSecrets'',
             JObj [(''enabled'', JBool False), (''remoteKey'', JStr ''db-password'')])])
     ''/repo/values/deployments/acme-staging.yaml'' ''acme-staging'' (Some ''staging'') = Inr []"
  by (simp add: isSingleSecretConfig_def extractSecretsFromChart_def)

text \<open>
  C4, amended. For a block whose enable flag is \<open>true\<close>: a block matching Shape A
  yields exactly one descriptor, with the block's remote key (whether or not it also
  matches Shape B: Shape A is tried first); a block matching Shape B and not Shape A, with
  \<open>N\<close> entries none of which is \<open>null\<close>, yields exactly \<open>N\<close> descriptors; each
  descriptor carries the block's secret store and refresh interval (or their defaults).
  A block matching neither shape, and a block whose flag is \<open>false\<close>, yield no
  descriptor and no error.
\<close>

theorem extract_shapes:
  fixes chartConfig :: jsval and chartName path dep :: string and envt :: "string option"
  defines "es \<equiv> opt_prop chartConfig ''externalSecrets''"
  defines "store' \<equiv> js_or (opt_prop es ''secretStore'') (JStr ''gcp-secretstore'')"
  defines "refresh' \<equiv> js_or (opt_prop es ''refreshInterval'') (JStr ''1h'')"
  defines "items \<equiv> array_items (opt_prop es ''secrets'')"
  defines "result \<equiv> extractSecretsFromChart chartName chartConfig path dep envt"
  shows
   "(isSingleSecretConfig es \<and> opt_prop es ''enabled'' = JBool True \<longrightarrow>
       (\<exists>d. result = Inr [d] \<and> remoteKey d = opt_prop es ''remoteKey'' \<and>
            secretStore d = store' \<and> refreshInterval d = refresh')) \<and>
    (\<not> isSingleSecretConfig es \<and> isArraySecretsConfig es \<and> opt_prop es ''enabled'' = JBool True \<and>
     (\<forall>item \<in> set items. item \<noteq> JNull \<and> item \<noteq> JUndefined) \<longrightarrow>
       (\<exists>ds. result = Inr ds \<and> length ds = length items \<and>
             (\<forall>d \<in> set ds. secretStore d = store' \<and> refreshInterval d = refresh'))) \<and>
    (\<not> isSingleSecretConfig es \<and> \<not> isArraySecretsConfig es \<longrightarrow> result = Inr []) \<and>
    (opt_prop es ''enabled'' = JBool False \<longrightarrow> result = Inr [])"
proof (intro conjI impI)
  assume "isSingleSecretConfig es \<and> opt_prop es ''enabled'' = JBool True"
  then show "\<exists>d. result = Inr [d] \<and> remoteKey d = opt_prop es ''remoteKey'' \<and>
            secretStore d = store' \<and> refreshInterval d = refresh'"
    by (simp add: result_def extractSecretsFromChart_def Let_def isSingleSecretConfig_def
        es_def store'_def refresh'_def)
next
  assume a: "\<not> isSingleSecretConfig es \<and> isArraySecretsConfig es \<and>
     opt_prop es ''enabled'' = JBool True \<and>
     (\<forall>item \<in> set items. item \<noteq> JNull \<and> item \<noteq> JUndefined)"
  let ?mk = "\<lambda>rk g. \<lparr>sourceFile = path, deployment = dep, chart = chartName,
                           environment = envt, remoteKey = rk, generator = g,
                           secretStore = store', refreshInterval = refresh',
                           namespace = opt_prop chartConfig ''namespace''\<rparr>"
  from a have "\<forall>item \<in> set items. item \<noteq> JNull \<and> item \<noteq> JUndefined" by simp
  from push_items_ok[OF this, of ?mk]
  obtain ds where ds: "push_items ?mk items = Inr ds" "length ds = length items"
      "\<forall>d \<in> set ds. \<exists>rk g. d = ?mk rk g" by blast
  from a have t: "truthy es" by (simp add: isArraySecretsConfig_def)
  from a t have "result = push_items ?mk items"
    by (simp add: result_def extractSecretsFromChart_def Let_def
        es_def[symmetric] store'_def[symmetric] refresh'_def[symmetric] items_def[symmetric])
  with ds show "\<exists>ds. result = Inr ds \<and> length ds = length items \<and>
             (\<forall>d \<in> set ds. secretStore d = store' \<and> refreshInterval d = refresh')"
    by fastforce
next
  assume "\<not> isSingleSecretConfig es \<and> \<not> isArraySecretsConfig es"
  then show "result = Inr []"
    by (simp add: result_def extractSecretsFromChart_def Let_def es_def[symmetric])
next
  assume "opt_prop es ''enabled'' = JBool False"
  then show "result = Inr []"
    by (simp add: result_def extractSecretsFromChart_def Let_def es_def[symmetric])
qed


theorem extract_shapes_witness:
  "extractSecretsFromChart ''postgresql''
     (JObj [(''externalSecrets'',
             JObj [(''enabled'', JBool True), (''remoteKey'', JStr ''db-password''),
                   (''secrets'', JArr [JObj [(''remoteKey'', JStr ''other'')]])])])
     ''/repo/values/deployments/acme-staging.yaml'' ''acme-staging'' (Some ''staging'')
   = Inr [\<lparr>sourceFile = ''/repo/values/deployments/acme-staging.yaml'',
             deployment = ''acme-staging'', chart = ''postgresql'', environment = Some ''staging'',
             remoteKey = JStr ''db-password'', generator = JUndefined,
             secretStore = JStr ''gcp-secretstore'', refreshInterval = JStr ''1h'',
             namespace = JUndefined\<rparr>] \<and>
   map (\<lambda>d. (remoteKey d, secretStore d, refreshInterval d))
     (projr (extractSecretsFromChart ''minio''
        (JObj [(''externalSecrets'',
                JObj [(''enabled'', JBool True), (''secretStore'', JStr ''aws''),
                      (''refreshInterval'', JStr ''5m''),
                      (''secrets'', JArr [JObj [(''remoteKey'', JStr ''root-user'')],
                                         JObj [(''remoteKey'', JStr ''root-password'')]])])])
        ''/repo/values/deployments/acme-staging.yaml'' ''acme-staging'' (Some ''staging'')))
   = [(JStr ''root-user'', JStr ''aws'', JStr ''5m''),
      (JStr ''root-password'', JStr ''aws'', JStr ''5m'')] \<and>
   extractSecretsFromChart ''api''
     (JObj [(''externalSecrets'', JObj [(''enabled'', JBool True), (''remoteKey'', JNum 5)])])
     ''/repo/values/deployments/acme-staging.yaml'' ''acme-staging'' (Some ''staging'') = Inr []"
  using
    extract_shapes [of "JObj [(''externalSecrets'',
             JObj [(''enabled'', JBool True), (''remoteKey'', JStr ''db-password''),
                   (''secrets'', JArr [JObj [(''remoteKey'', JStr ''other'')]])])]"
        "''postgresql''" "''/repo/values/deployments/acme-staging.yaml''" "''acme-staging''"
        "Some ''staging''"]
    extract_shapes [of "JObj [(''externalSecrets'',
                JObj [(''enabled'', JBool True), (''secretStore'', JStr ''aws''),
                      (''refreshInterval'', JStr ''5m''),
                      (''secrets'', JArr [JObj [(''remoteKey'', JStr ''root-user'')],
                                         JObj [(''remoteKey'', JStr ''root-password'')]])])]"
        "''minio''" "''/repo/values/deployments/acme-staging.yaml''" "''acme-staging''"
        "Some ''staging''"]
    extract_shapes [of "JObj [(''externalSecrets'', JObj [(''enabled'', JBool True), (''remoteKey'', JNum 5)])]"
        "''api''" "''/repo/values/deployments/acme-staging.yaml''" "''acme-staging''"
        "Some ''staging''"]
  by (simp add: isSingleSecretConfig_def isArraySecretsConfig_def extractSecretsFromChart_def
      js_or_def Let_def)






lemma parseValuesFile_unparsable: "load fs f = Inl e \<Longrightarrow> parseValuesFile fs f = []"
  by (simp add: parseValuesFile_def)


lemma secrets_scan:
  "secrets (scanValuesFiles fs opt) = concat (map (parseValuesFile fs) (scanned_files fs opt))"
  by (simp add: scanValuesFiles_def Let_def)


lemma concat_parse_removeAll:
  assumes "parseValuesFile fs (resolve c bad) = []"
  shows "concat (map (parseValuesFile fs) (filter Q (map (resolve c) (removeAll bad xs)))) =
         concat (map (parseValuesFile fs) (filter Q (map (resolve c) xs)))"
  by (induction xs) (auto simp: assms)

lemma parseValuesFile_glob_update [simp]:
  "parseValuesFile (fs\<lparr>glob := g\<rparr>) = parseValuesFile fs"
  by (rule ext) (simp add: parseValuesFile_def)

text \<open>
  C8. A document that cannot be read or parsed contributes no descriptor, and the scan
  (which has no failure result) returns the descriptors it returns when that document is
  not among the files found.
\<close>

theorem scan_total_progress:
  assumes "load fs (resolve (cwd fs) bad) = Inl e"
  shows "parseValuesFile fs (resolve (cwd fs) bad) = [] \<and>
         secrets (scanValuesFiles fs opt) =
         secrets (scanValuesFiles (fs\<lparr>glob := \<lambda>pattern. removeAll bad (glob fs pattern)\<rparr>) opt)"
proof
  show nil: "parseValuesFile fs (resolve (cwd fs) bad) = []"
    using assms by (rule parseValuesFile_unparsable)
  have all: "concat (map (parseValuesFile fs)
                (filter Q (allFiles (fs\<lparr>glob := \<lambda>pattern. removeAll bad (glob fs pattern)\<rparr>)))) =
             concat (map (parseValuesFile fs) (filter Q (allFiles fs)))" for Q
    by (simp add: allFiles_def patterns_def concat_parse_removeAll [OF nil])
  from all [of "\<lambda>f. True"]
  have all': "concat (map (parseValuesFile fs)
                (allFiles (fs\<lparr>glob := \<lambda>pattern. removeAll bad (glob fs pattern)\<rparr>))) =
             concat (map (parseValuesFile fs) (allFiles fs))"
    by simp
  show "secrets (scanValuesFiles fs opt) =
         secrets (scanValuesFiles (fs\<lparr>glob := \<lambda>pattern. removeAll bad (glob fs pattern)\<rparr>) opt)"
    by (simp add: secrets_scan scanned_files_def all all' split: option.splits)
qed

theorem scan_total_progress_witness:
  "load example_fs (resolve (cwd example_fs) ''values/deployments/broken.yaml'') = Inl YAMLParseError \<and>
   parseValuesFile example_fs (resolve (cwd example_fs) ''values/deployments/broken.yaml'') = [] \<and>
   secrets (scanValuesFiles example_fs None) =
   secrets (scanValuesFiles
     (example_fs\<lparr>glob := \<lambda>pattern. removeAll ''values/deployments/broken.yaml''
                                         (glob example_fs pattern)\<rparr>) None)"
  using scan_total_progress [of example_fs "''values/deployments/broken.yaml''" YAMLParseError None]
  by (simp add: example_fs_def resolve_def)





section \<open>Properties of the generator\<close>

















section \<open>Properties of the validator\<close>

subsection \<open>Association lists as insertion-ordered maps\<close>

lemma weight_update:
  fixes f :: "'v \<Rightarrow> nat"
  shows "sum_list (map (\<lambda>p. f (snd p)) (AList.update k v al)) +
           (case map_of al k of None \<Rightarrow> 0 | Some old \<Rightarrow> f old) =
         sum_list (map (\<lambda>p. f (snd p)) al) + f v"
  by (induction al) auto

lemma map_of_in_values: "map_of al k = Some v \<Longrightarrow> v \<in> snd ` set al"
  by (metis map_of_SomeD image_eqI snd_conv)

lemma values_update: "snd ` set (AList.update k v al) \<subseteq> insert v (snd ` set al)"
  by (induction al) auto

lemma keys_update: "fst ` set (AList.update k v al) = insert k (fst ` set al)"
  using dom_update [of k v al] by (simp add: dom_map_of_conv_image_fst)

lemma weight_fold_le:
  fixes f :: "'v \<Rightarrow> nat"
  shows "sum_list (map (\<lambda>p. f (snd p)) (foldl (\<lambda>m kv. AList.update (fst kv) (snd kv) m) al kvs))
         \<le> sum_list (map (\<lambda>p. f (snd p)) al) + sum_list (map (\<lambda>p. f (snd p)) kvs)"
proof (induction kvs arbitrary: al)
  case Nil
  then show ?case by simp
next
  case (Cons kv kvs)
  have "sum_list (map (\<lambda>p. f (snd p)) (AList.update (fst kv) (snd kv) al))
        \<le> sum_list (map (\<lambda>p. f (snd p)) al) + f (snd kv)"
    using weight_update [of f "fst kv" "snd kv" al] by linarith
  with Cons.IH [of "AList.update (fst kv) (snd kv) al"] show ?case by simp
qed

lemma weight_fold_less:
  fixes f :: "'v \<Rightarrow> nat"
  assumes "\<forall>v \<in> snd ` set al. 0 < f v" and "\<forall>v \<in> snd ` set kvs. 0 < f v"
    and "\<not> distinct (map fst kvs) \<or> (\<exists>k \<in> fst ` set kvs. k \<in> fst ` set al)"
  shows "sum_list (map (\<lambda>p. f (snd p)) (foldl (\<lambda>m kv. AList.update (fst kv) (snd kv) m) al kvs))
         < sum_list (map (\<lambda>p. f (snd p)) al) + sum_list (map (\<lambda>p. f (snd p)) kvs)"
  using assms
proof (induction kvs arbitrary: al)
  case Nil
  then show ?case by simp
next
  case (Cons kv kvs)
  let ?al = "AList.update (fst kv) (snd kv) al"
  show ?case
  proof (cases "fst kv \<in> fst ` set al")
    case True
    then obtain old where old: "map_of al (fst kv) = Some old"
      by (metis domD dom_map_of_conv_image_fst)
    then have "old \<in> snd ` set al" by (rule map_of_in_values)
    with Cons.prems(1) have "0 < f old" by blast
    with weight_update [of f "fst kv" "snd kv" al] old
    have "sum_list (map (\<lambda>p. f (snd p)) ?al) < sum_list (map (\<lambda>p. f (snd p)) al) + f (snd kv)"
      by simp
    with weight_fold_le [of f ?al kvs] show ?thesis by simp
  next
    case False
    then have none: "map_of al (fst kv) = None"
      by (metis domIff dom_map_of_conv_image_fst)
    with weight_update [of f "fst kv" "snd kv" al]
    have w: "sum_list (map (\<lambda>p. f (snd p)) ?al) = sum_list (map (\<lambda>p. f (snd p)) al) + f (snd kv)"
      by simp
    from Cons.prems(2) have fkv: "0 < f (snd kv)" by simp
    have pos: "\<forall>v \<in> snd ` set ?al. 0 < f v"
    proof
      fix v assume "v \<in> snd ` set ?al"
      with values_update [of "fst kv" "snd kv" al] have "v = snd kv \<or> v \<in> snd ` set al" by auto
      with Cons.prems(1) fkv show "0 < f v" by auto
    qed
    from Cons.prems(2) have pos': "\<forall>v \<in> snd ` set kvs. 0 < f v" by simp
    have "\<not> distinct (map fst kvs) \<or> (\<exists>k \<in> fst ` set kvs. k \<in> fst ` set ?al)"
    proof (cases "distinct (map fst kvs)")
      case dk: True
      from Cons.prems(3) have "fst kv \<in> fst ` set kvs \<or> (\<exists>k \<in> fst ` set kvs. k \<in> fst ` set al)"
        using dk False by auto
      then show ?thesis by (force simp: keys_update)
    qed simp
    from Cons.IH [OF pos pos' this] w show ?thesis by simp
  qed
qed

subsection \<open>The grouping loop\<close>

lemma group_step_distinct:
  "distinct (map fst m) \<Longrightarrow> distinct (map fst (group_step m s))"
  by (simp add: group_step_def Let_def distinct_update)

lemma group_step_keys: "fst ` set (group_step m s) = insert (group_key s) (fst ` set m)"
  by (simp add: group_step_def Let_def keys_update)

lemma group_step_size:
  "sum_list (map (\<lambda>p. length (snd p)) (group_step m s)) =
   Suc (sum_list (map (\<lambda>p. length (snd p)) m))"
  using weight_update [of length "group_key s"
      "(case map_of m (group_key s) of None \<Rightarrow> [] | Some xs \<Rightarrow> xs) @ [s]" m]
  by (simp add: group_step_def Let_def split: option.splits)

lemma group_step_nonempty:
  "\<forall>g \<in> snd ` set m. g \<noteq> [] \<Longrightarrow> \<forall>g \<in> snd ` set (group_step m s). g \<noteq> []"
proof
  fix g assume nonempty: "\<forall>g \<in> snd ` set m. g \<noteq> []" and "g \<in> snd ` set (group_step m s)"
  with values_update [of "group_key s"
      "(case map_of m (group_key s) of None \<Rightarrow> [] | Some xs \<Rightarrow> xs) @ [s]" m]
  have "g = (case map_of m (group_key s) of None \<Rightarrow> [] | Some xs \<Rightarrow> xs) @ [s] \<or> g \<in> snd ` set m"
    unfolding group_step_def Let_def by blast
  with nonempty show "g \<noteq> []" by auto
qed

lemma group_fold:
  "distinct (map fst m) \<Longrightarrow> \<forall>g \<in> snd ` set m. g \<noteq> [] \<Longrightarrow>
   distinct (map fst (foldl group_step m ss)) \<and>
   fst ` set (foldl group_step m ss) = fst ` set m \<union> group_key ` set ss \<and>
   sum_list (map (\<lambda>p. length (snd p)) (foldl group_step m ss)) =
     sum_list (map (\<lambda>p. length (snd p)) m) + length ss \<and>
   (\<forall>g \<in> snd ` set (foldl group_step m ss). g \<noteq> [])"
proof (induction ss arbitrary: m)
  case Nil
  then show ?case by simp
next
  case (Cons s ss)
  from Cons.IH [OF group_step_distinct [OF Cons.prems(1)] group_step_nonempty [OF Cons.prems(2)], of s]
  show ?case by (auto simp add: group_step_keys group_step_size)
qed

lemma group_secrets_props:
  "distinct (map fst (group_secrets ss))"
  "fst ` set (group_secrets ss) = group_key ` set ss"
  "sum_list (map (\<lambda>p. length (snd p)) (group_secrets ss)) = length ss"
  "\<forall>g \<in> snd ` set (group_secrets ss). g \<noteq> []"
  using group_fold [of "[]" ss] by (simp_all add: group_secrets_def)

subsection \<open>Group keys\<close>

lemma split_on_head: "\<exists>ps. split_on c s = takeWhile (\<lambda>x. x \<noteq> c) s # ps"
  by (induction s) (auto split: list.splits)

lemma fst_key_parts: "fst (key_parts key) = takeWhile (\<lambda>x. x \<noteq> CHR '':'') key"
proof -
  obtain ps where "split_on CHR '':'' key = takeWhile (\<lambda>x. x \<noteq> CHR '':'') key # ps"
    using split_on_head by blast
  then show ?thesis by (cases ps) (simp_all add: key_parts_def)
qed

lemma takeWhile_sep: "takeWhile (\<lambda>x. x \<noteq> c) (xs @ c # ys) = takeWhile (\<lambda>x. x \<noteq> c) xs"
  by (induction xs) auto

lemma deployment_of_group_key:
  "fst (key_parts (group_key s)) = takeWhile (\<lambda>x. x \<noteq> CHR '':'') (deployment s)"
  by (simp add: fst_key_parts group_key_def takeWhile_sep)


subsection \<open>The loop over the groups\<close>

lemma validate_fold:
  "foldl (validate_step k8s) al grouped =
   foldl (\<lambda>m kv. AList.update (fst kv) (snd kv) m) al
     (map (\<lambda>x. (dv_deployment x, x))
        (map (\<lambda>entry. validate_group k8s (fst entry) (snd entry)) grouped))"
  by (induction grouped arbitrary: al) (simp_all add: validate_step_def Let_def)

lemma foldl_plus:
  fixes g :: "'a \<Rightarrow> nat"
  shows "foldl (\<lambda>sum d. sum + g d) a ds = a + sum_list (map g ds)"
  by (induction ds arbitrary: a) simp_all

lemma set_update_subset: "set (AList.update k v al) \<subseteq> insert (k, v) (set al)"
  by (induction al) auto

lemma fold_update_entries:
  "set (foldl (\<lambda>m kv. AList.update (fst kv) (snd kv) m) al kvs) \<subseteq> set al \<union> set kvs"
proof (induction kvs arbitrary: al)
  case Nil
  then show ?case by simp
next
  case (Cons kv kvs)
  from Cons.IH [of "AList.update (fst kv) (snd kv) al"] set_update_subset [of "fst kv" "snd kv" al]
  show ?case by auto
qed

lemma fold_update_distinct:
  "distinct (map fst al) \<Longrightarrow>
   distinct (map fst (foldl (\<lambda>m kv. AList.update (fst kv) (snd kv) m) al kvs))"
  by (induction kvs arbitrary: al) (simp_all add: distinct_update)

lemma fold_update_map_of:
  "map_of (foldl (\<lambda>m kv. AList.update (fst kv) (snd kv) m) al kvs) = map_of al ++ map_of (rev kvs)"
proof (induction kvs arbitrary: al)
  case Nil
  then show ?case by simp
next
  case (Cons kv kvs)
  show ?case
    by (rule ext) (simp add: Cons.IH update_conv' map_add_def split: option.splits)
qed

lemma map_of_find: "map_of (map (\<lambda>x. (h x, x)) xs) k = find (\<lambda>x. h x = k) xs"
  by (induction xs) auto

lemma validate_group_statuses:
  "length (externalSecrets (validate_group k8s key grp)) = length grp"
  "dv_errorCount (validate_group k8s key grp) =
     length (filter (\<lambda>s. \<not> ready s) (externalSecrets (validate_group k8s key grp)))"
  "dv_deployment (validate_group k8s key grp) = fst (key_parts key)"
  by (simp_all add: validate_group_def Let_def)

text \<open>The entries of the result map, and what the counts count.\<close>

lemma deployments_entries:
  assumes "e \<in> set (deployments (validateExternalSecrets k8s ss))"
  shows "\<exists>entry \<in> set (group_secrets ss). e = validate_group k8s (fst entry) (snd entry)"
proof -
  from assms obtain k where
    "(k, e) \<in> set (foldl (validate_step k8s) [] (group_secrets ss))"
    by (auto simp: validateExternalSecrets_def Let_def)
  with fold_update_entries [of "[]"] show ?thesis
    unfolding validate_fold by fastforce
qed

lemma validation_counts:
  fixes k8s ss
  defines "r \<equiv> validateExternalSecrets k8s ss"
  shows "totalExternalSecrets r = length (concat (map externalSecrets (deployments r)))"
    and "syncedCount r = length (filter synced (concat (map externalSecrets (deployments r))))"
    and "readyCount r = length (filter ready (concat (map externalSecrets (deployments r))))"
    and "errorCount r =
           length (filter (\<lambda>s. \<not> ready s) (concat (map externalSecrets (deployments r))))"
    and "success r = (errorCount r = 0 \<and> syncedCount r = totalExternalSecrets r)"
proof -
  show "totalExternalSecrets r = length (concat (map externalSecrets (deployments r)))"
    by (simp add: r_def validateExternalSecrets_def Let_def foldl_plus length_concat comp_def)
  show "syncedCount r = length (filter synced (concat (map externalSecrets (deployments r))))"
    by (simp add: r_def validateExternalSecrets_def Let_def foldl_plus length_concat comp_def
        filter_concat)
  show "readyCount r = length (filter ready (concat (map externalSecrets (deployments r))))"
    by (simp add: r_def validateExternalSecrets_def Let_def foldl_plus length_concat comp_def
        filter_concat)
  have "\<forall>e \<in> set (deployments r).
          dv_errorCount e = length (filter (\<lambda>s. \<not> ready s) (externalSecrets e))"
    using deployments_entries [of _ k8s ss] validate_group_statuses(2)
    unfolding r_def by metis
  then have "sum_list (map dv_errorCount (deployments r)) =
      sum_list (map (\<lambda>e. length (filter (\<lambda>s. \<not> ready s) (externalSecrets e))) (deployments r))"
    by (intro arg_cong [where f = sum_list] map_cong) simp_all
  moreover have "errorCount r = sum_list (map dv_errorCount (deployments r))"
    by (simp add: r_def validateExternalSecrets_def Let_def foldl_plus)
  moreover have "length (filter (\<lambda>s. \<not> ready s) (concat (map externalSecrets (deployments r)))) =
      sum_list (map (\<lambda>e. length (filter (\<lambda>s. \<not> ready s) (externalSecrets e))) (deployments r))"
    by (simp add: length_concat comp_def filter_concat)
  ultimately show "errorCount r =
           length (filter (\<lambda>s. \<not> ready s) (concat (map externalSecrets (deployments r))))"
    by simp
  show "success r = (errorCount r = 0 \<and> syncedCount r = totalExternalSecrets r)"
    by (simp add: r_def validateExternalSecrets_def Let_def)
qed

lemma length_filter_all: "(length (filter P xs) = length xs) = list_all P xs"
proof (induction xs)
  case Nil
  then show ?case by simp
next
  case (Cons x xs)
  from length_filter_le [of P xs] have "length (filter P xs) \<noteq> Suc (length xs)"
    by linarith
  with Cons show ?case by simp
qed

lemma filter_not_empty: "(filter (\<lambda>x. \<not> P x) xs = []) = list_all P xs"
  by (induction xs) auto

text \<open>
  C6. The aggregate result carries the counts \<open>total\<close>, \<open>synced\<close>, \<open>ready\<close> and
  \<open>errors\<close>, taken over the statuses of the deployments it lists, and \<open>success\<close> holds
  exactly when the error count is 0 and the synced count equals the total; that is,
  exactly when every listed status is ready and synced.
\<close>

theorem validation_success:
  fixes k8s secrets'
  defines "r \<equiv> validateExternalSecrets k8s secrets'"
  defines "statuses \<equiv> concat (map externalSecrets (deployments r))"
  shows "success r = (errorCount r = 0 \<and> syncedCount r = totalExternalSecrets r) \<and>
         totalExternalSecrets r = length statuses \<and>
         syncedCount r = length (filter synced statuses) \<and>
         readyCount r = length (filter ready statuses) \<and>
         errorCount r = length (filter (\<lambda>s. \<not> ready s) statuses) \<and>
         success r = (list_all ready statuses \<and> list_all synced statuses)"
proof -
  note c = validation_counts [of k8s secrets', folded r_def, folded statuses_def]
  from c have "success r = (list_all ready statuses \<and> list_all synced statuses)"
    by (simp add: length_filter_all filter_not_empty)
  with c show ?thesis by simp
qed


lemma deployments_keys:
  fixes k8s ss
  defines "results \<equiv> map (\<lambda>entry. validate_group k8s (fst entry) (snd entry)) (group_secrets ss)"
  defines "table \<equiv> foldl (validate_step k8s) [] (group_secrets ss)"
  shows "distinct (map fst table)"
    and "map_of table = map_of (rev (map (\<lambda>x. (dv_deployment x, x)) results))"
    and "\<forall>p \<in> set table. fst p = dv_deployment (snd p)"
    and "deployments (validateExternalSecrets k8s ss) = map snd table"
proof -
  show "distinct (map fst table)"
    unfolding table_def validate_fold by (rule fold_update_distinct) simp
  show "map_of table = map_of (rev (map (\<lambda>x. (dv_deployment x, x)) results))"
    unfolding table_def validate_fold results_def by (simp add: fold_update_map_of)
  show "\<forall>p \<in> set table. fst p = dv_deployment (snd p)"
    using fold_update_entries [of "[]"
        "map (\<lambda>x. (dv_deployment x, x))
           (map (\<lambda>entry. validate_group k8s (fst entry) (snd entry)) (group_secrets ss))"]
    unfolding table_def validate_fold by auto
  show "deployments (validateExternalSecrets k8s ss) = map snd table"
    by (simp add: validateExternalSecrets_def Let_def table_def)
qed

lemma group_results_length:
  "length (concat (map externalSecrets
      (map (\<lambda>entry. validate_group k8s (fst entry) (snd entry)) (group_secrets ss)))) = length ss"
  using group_secrets_props(3) [of ss]
  by (simp add: length_concat comp_def validate_group_statuses(1))

lemma two_namespaces_collide:
  assumes "s1 \<in> set ss" and "s2 \<in> set ss"
    and "deployment s1 = deployment s2"
    and "namespace_or_default s1 \<noteq> namespace_or_default s2"
  shows "\<not> distinct (map (\<lambda>entry. fst (key_parts (fst entry))) (group_secrets ss))"
proof
  assume d: "distinct (map (\<lambda>entry. fst (key_parts (fst entry))) (group_secrets ss))"
  have "map (\<lambda>entry. fst (key_parts (fst entry))) (group_secrets ss) =
        map (\<lambda>k. fst (key_parts k)) (map fst (group_secrets ss))"
    by simp
  with d have inj: "inj_on (\<lambda>k. fst (key_parts k)) (set (map fst (group_secrets ss)))"
    by (simp only: distinct_map)
  from assms(1,2) group_secrets_props(2) [of ss]
  have "group_key s1 \<in> set (map fst (group_secrets ss))"
       "group_key s2 \<in> set (map fst (group_secrets ss))"
    by auto
  moreover from assms(3) have "fst (key_parts (group_key s1)) = fst (key_parts (group_key s2))"
    by (simp add: deployment_of_group_key)
  ultimately have "group_key s1 = group_key s2"
    using inj by (rule_tac inj_onD)
  with assms(3,4) show False by (simp add: group_key_def)
qed

text \<open>
  C10. The groups are keyed by deployment and namespace, the results by the deployment
  name alone. When two descriptors of one deployment lie in different namespaces: the
  result lists each deployment name once, the entry of a deployment is the result of the
  group with that name that was processed last, one status was read per descriptor, the
  counts are taken over the listed entries, and so the total is smaller than the number
  of descriptors.
\<close>

theorem validation_keyed_by_deployment:
  fixes k8s secrets'
  defines "r \<equiv> validateExternalSecrets k8s secrets'"
  defines "group_results \<equiv>
    map (\<lambda>entry. validate_group k8s (fst entry) (snd entry)) (group_secrets secrets')"
  assumes "s1 \<in> set secrets'" and "s2 \<in> set secrets'"
    and "deployment s1 = deployment s2"
    and "namespace_or_default s1 \<noteq> namespace_or_default s2"
  shows "distinct (map dv_deployment (deployments r)) \<and>
         (\<forall>e \<in> set (deployments r).
            find (\<lambda>x. dv_deployment x = dv_deployment e) (rev group_results) = Some e) \<and>
         length (concat (map externalSecrets group_results)) = length secrets' \<and>
         totalExternalSecrets r = length (concat (map externalSecrets (deployments r))) \<and>
         syncedCount r = length (filter synced (concat (map externalSecrets (deployments r)))) \<and>
         readyCount r = length (filter ready (concat (map externalSecrets (deployments r)))) \<and>
         errorCount r =
           length (filter (\<lambda>s. \<not> ready s) (concat (map externalSecrets (deployments r)))) \<and>
         totalExternalSecrets r < length secrets'"
proof -
  define table where "table = foldl (validate_step k8s) [] (group_secrets secrets')"
  note keys = deployments_keys [of k8s secrets', folded table_def, folded group_results_def,
      folded r_def]
  have names: "map dv_deployment (deployments r) = map fst table"
    using keys(3) by (simp add: keys(4))
  with keys(1) have one: "distinct (map dv_deployment (deployments r))" by simp
  have last: "\<forall>e \<in> set (deployments r).
            find (\<lambda>x. dv_deployment x = dv_deployment e) (rev group_results) = Some e"
  proof
    fix e assume "e \<in> set (deployments r)"
    then obtain k where k: "(k, e) \<in> set table" by (auto simp: keys(4))
    with keys(3) have "k = dv_deployment e" by auto
    moreover from k keys(1) have "map_of table k = Some e" by simp
    ultimately have "map_of (map (\<lambda>x. (dv_deployment x, x)) (rev group_results))
        (dv_deployment e) = Some e"
      by (simp add: keys(2) rev_map)
    then show "find (\<lambda>x. dv_deployment x = dv_deployment e) (rev group_results) = Some e"
      by (simp only: map_of_find)
  qed
  have all: "length (concat (map externalSecrets group_results)) = length secrets'"
    unfolding group_results_def by (rule group_results_length)
  note counts = validation_counts [of k8s secrets', folded r_def]
  have nd: "\<not> distinct (map fst (map (\<lambda>x. (dv_deployment x, x)) group_results))"
    using two_namespaces_collide [OF assms(3-6)]
    by (simp add: group_results_def comp_def validate_group_statuses(3))
  have pos: "\<forall>v \<in> snd ` set (map (\<lambda>x. (dv_deployment x, x)) group_results).
      0 < length (externalSecrets v)"
    using group_secrets_props(4) [of secrets']
    by (fastforce simp: group_results_def validate_group_def Let_def)
  from weight_fold_less [where f = "\<lambda>v. length (externalSecrets v)" and al = "[]"
      and kvs = "map (\<lambda>x. (dv_deployment x, x)) group_results"] nd pos
  have "sum_list (map (\<lambda>p. length (externalSecrets (snd p))) table)
     < length (concat (map externalSecrets group_results))"
    by (simp add: table_def validate_fold group_results_def length_concat comp_def)
  with all have "totalExternalSecrets r < length secrets'"
    by (simp add: counts(1) keys(4) length_concat comp_def)
  with one last all counts show ?thesis by simp
qed


theorem validation_success_witness:
  "success (validateExternalSecrets example_k8s example_secrets) =
     (errorCount (validateExternalSecrets example_k8s example_secrets) = 0 \<and>
      syncedCount (validateExternalSecrets example_k8s example_secrets) =
      totalExternalSecrets (validateExternalSecrets example_k8s example_secrets)) \<and>
   success (validateExternalSecrets example_k8s example_secrets) = True \<and>
   errorCount (validateExternalSecrets example_k8s example_secrets) = 0 \<and>
   syncedCount (validateExternalSecrets example_k8s example_secrets) = 1 \<and>
   totalExternalSecrets (validateExternalSecrets example_k8s example_secrets) = 1 \<and>
   success (validateExternalSecrets example_k8s [example_secret ''api'' ''web'' ''acme-staging-api-key''])
     = False \<and>
   errorCount (validateExternalSecrets example_k8s [example_secret ''api'' ''web'' ''acme-staging-api-key''])
     = 1"
proof -
  from validation_success [of example_k8s example_secrets]
  have "success (validateExternalSecrets example_k8s example_secrets) =
     (errorCount (validateExternalSecrets example_k8s example_secrets) = 0 \<and>
      syncedCount (validateExternalSecrets example_k8s example_secrets) =
      totalExternalSecrets (validateExternalSecrets example_k8s example_secrets))"
    by blast
  moreover have
   "success (validateExternalSecrets example_k8s example_secrets) = True"
   "errorCount (validateExternalSecrets example_k8s example_secrets) = 0"
   "syncedCount (validateExternalSecrets example_k8s example_secrets) = 1"
   "totalExternalSecrets (validateExternalSecrets example_k8s example_secrets) = 1"
   "success (validateExternalSecrets example_k8s [example_secret ''api'' ''web'' ''acme-staging-api-key''])
     = False"
   "errorCount (validateExternalSecrets example_k8s [example_secret ''api'' ''web'' ''acme-staging-api-key''])
     = 1"
    by code_simp+
  ultimately show ?thesis by (intro conjI)
qed

theorem validation_keyed_by_deployment_witness:
  "example_secret ''api'' ''web'' ''acme-staging-api-key'' \<in> set example_secrets \<and>
   example_secret ''worker'' ''jobs'' ''acme-staging-worker-key'' \<in> set example_secrets \<and>
   deployment (example_secret ''api'' ''web'' ''acme-staging-api-key'') =
     deployment (example_secret ''worker'' ''jobs'' ''acme-staging-worker-key'') \<and>
   namespace_or_default (example_secret ''api'' ''web'' ''acme-staging-api-key'') \<noteq>
     namespace_or_default (example_secret ''worker'' ''jobs'' ''acme-staging-worker-key'') \<and>
   totalExternalSecrets (validateExternalSecrets example_k8s example_secrets) < length example_secrets \<and>
   map (\<lambda>e. (dv_deployment e, dv_namespace e, map es_name (externalSecrets e)))
     (deployments (validateExternalSecrets example_k8s example_secrets)) =
     [(''acme-staging'', ''jobs'', [''worker-credentials''])] \<and>
   validation_polls example_secrets =
     [(''api-credentials'', ''web''), (''worker-credentials'', ''jobs'')] \<and>
   ready (getExternalSecretStatus example_k8s ''api-credentials'' ''web'') = False \<and>
   success (validateExternalSecrets example_k8s example_secrets) = True"
proof -
  have h: "example_secret ''api'' ''web'' ''acme-staging-api-key'' \<in> set example_secrets"
    "example_secret ''worker'' ''jobs'' ''acme-staging-worker-key'' \<in> set example_secrets"
    "deployment (example_secret ''api'' ''web'' ''acme-staging-api-key'') =
     deployment (example_secret ''worker'' ''jobs'' ''acme-staging-worker-key'')"
    "namespace_or_default (example_secret ''api'' ''web'' ''acme-staging-api-key'') \<noteq>
     namespace_or_default (example_secret ''worker'' ''jobs'' ''acme-staging-worker-key'')"
    by (simp_all add: example_secrets_def example_secret_def namespace_or_default_def)
  from validation_keyed_by_deployment [OF h, of example_k8s]
  have "totalExternalSecrets (validateExternalSecrets example_k8s example_secrets)
          < length example_secrets"
    by blast
  moreover have
   "map (\<lambda>e. (dv_deployment e, dv_namespace e, map es_name (externalSecrets e)))
     (deployments (validateExternalSecrets example_k8s example_secrets)) =
     [(''acme-staging'', ''jobs'', [''worker-credentials''])]"
   "validation_polls example_secrets =
     [(''api-credentials'', ''web''), (''worker-credentials'', ''jobs'')]"
   "ready (getExternalSecretStatus example_k8s ''api-credentials'' ''web'') = False"
   "success (validateExternalSecrets example_k8s example_secrets) = True"
    by code_simp+
  ultimately show ?thesis using h by (intro conjI)
qed

subsection \<open>The polling loop\<close>

lemma status_not_both_and_error:
  "\<not> (ready (getExternalSecretStatus k8s name ns) \<and> synced (getExternalSecretStatus k8s name ns) \<and>
      truthy_str (errorMessage (getExternalSecretStatus k8s name ns)))"
  by (auto simp: getExternalSecretStatus_def Let_def truthy_str_def split: option.splits)

lemma wait_loop_timeout:
  "\<not> int elapsed < timeoutMs \<Longrightarrow> wait_loop k8s_at latency name ns timeoutMs elapsed = timed_out"
  by (subst wait_loop.simps) (simp add: timed_out_def)

lemma wait_loop_pending:
  assumes "int elapsed < timeoutMs" and "pending (status_at k8s_at name ns elapsed)"
  shows "wait_loop k8s_at latency name ns timeoutMs elapsed =
         wait_loop k8s_at latency name ns timeoutMs (elapsed + latency + pollInterval)"
  using assms by (subst wait_loop.simps) (auto simp add: Let_def pending_def status_at_def)

lemma wait_loop_synced:
  assumes "int elapsed < timeoutMs"
    and "ready (status_at k8s_at name ns elapsed)" and "synced (status_at k8s_at name ns elapsed)"
  shows "wait_loop k8s_at latency name ns timeoutMs elapsed =
         \<lparr>w_synced = True, w_ready = True, w_error = None\<rparr>"
  using assms by (subst wait_loop.simps) (simp add: Let_def status_at_def)

lemma wait_loop_error:
  assumes "int elapsed < timeoutMs"
    and "truthy_str (errorMessage (status_at k8s_at name ns elapsed))"
  shows "wait_loop k8s_at latency name ns timeoutMs elapsed =
         \<lparr>w_synced = False, w_ready = False,
          w_error = errorMessage (status_at k8s_at name ns elapsed)\<rparr>"
  using assms status_not_both_and_error [of "k8s_at elapsed" name ns]
  by (subst wait_loop.simps) (auto simp add: Let_def status_at_def)

lemma wait_loop_skip:
  assumes "\<forall>j<k. pending (status_at k8s_at name ns (elapsed + j * (latency + pollInterval)))"
    and "int (elapsed + k * (latency + pollInterval)) < timeoutMs"
  shows "wait_loop k8s_at latency name ns timeoutMs elapsed =
         wait_loop k8s_at latency name ns timeoutMs (elapsed + k * (latency + pollInterval))"
  using assms
proof (induction k arbitrary: elapsed)
  case 0
  then show ?case by simp
next
  case (Suc k)
  from Suc.prems(1) [rule_format, of 0] have p0: "pending (status_at k8s_at name ns elapsed)"
    by simp
  have "elapsed \<le> elapsed + Suc k * (latency + pollInterval)" by simp
  with Suc.prems(2) have lt: "int elapsed < timeoutMs" by linarith
  have step: "\<forall>j<k. pending (status_at k8s_at name ns
      (elapsed + latency + pollInterval + j * (latency + pollInterval)))"
  proof (intro allI impI)
    fix j assume "j < k"
    then have "Suc j < Suc k" by simp
    from Suc.prems(1) [rule_format, OF this]
    show "pending (status_at k8s_at name ns
      (elapsed + latency + pollInterval + j * (latency + pollInterval)))"
      by (simp add: add.assoc)
  qed
  from Suc.prems(2)
  have lt': "int (elapsed + latency + pollInterval + k * (latency + pollInterval)) < timeoutMs"
    by (simp add: add.assoc)
  from Suc.IH [OF step lt']
    wait_loop_pending [of elapsed timeoutMs k8s_at name ns latency, OF lt p0]
  show ?case by (simp add: add.assoc)
qed

lemma wait_loop_all_pending:
  assumes "\<forall>j. int (elapsed + j * (latency + pollInterval)) < timeoutMs \<longrightarrow>
               pending (status_at k8s_at name ns (elapsed + j * (latency + pollInterval)))"
  shows "wait_loop k8s_at latency name ns timeoutMs elapsed = timed_out"
  using assms
proof (induction k8s_at latency name ns timeoutMs elapsed rule: wait_loop.induct)
  case (1 k8s_at latency name ns timeoutMs elapsed)
  show ?case
  proof (cases "int elapsed < timeoutMs")
    case False
    then show ?thesis by (rule wait_loop_timeout)
  next
    case True
    with "1.prems" [rule_format, of 0] have p0: "pending (status_at k8s_at name ns elapsed)"
      by simp
    have rest: "\<forall>j. int (elapsed + latency + pollInterval + j * (latency + pollInterval)) < timeoutMs \<longrightarrow>
               pending (status_at k8s_at name ns
                 (elapsed + latency + pollInterval + j * (latency + pollInterval)))"
    proof (intro allI impI)
      fix j
      assume "int (elapsed + latency + pollInterval + j * (latency + pollInterval)) < timeoutMs"
      then have "int (elapsed + Suc j * (latency + pollInterval)) < timeoutMs"
        by (simp add: add.assoc)
      from "1.prems" [rule_format, OF this]
      show "pending (status_at k8s_at name ns
                 (elapsed + latency + pollInterval + j * (latency + pollInterval)))"
        by (simp add: add.assoc)
    qed
    from p0 have nb: "\<not> (ready (getExternalSecretStatus (k8s_at elapsed) name ns) \<and>
        synced (getExternalSecretStatus (k8s_at elapsed) name ns))"
      and ne: "\<not> truthy_str (errorMessage (getExternalSecretStatus (k8s_at elapsed) name ns))"
      by (simp_all add: pending_def status_at_def)
    from "1.IH" [OF True refl nb ne rest]
      wait_loop_pending [of elapsed timeoutMs k8s_at name ns latency, OF True p0]
    show ?thesis by simp
  qed
qed


text \<open>
  C3, as stated, fails: the time-out is the loop condition and is tested before every
  poll. With a time-out of 0 the delivery object is never read, and an object that
  carries an error message yields the time-out result, not that message.
\<close>

theorem wait_timeout_first_counterexample:
  "truthy_str (errorMessage (status_at example_k8s_at ''api-credentials'' ''web'' 0)) \<and>
   errorMessage (status_at example_k8s_at ''api-credentials'' ''web'' 0) =
     Some ''could not get secret data from provider'' \<and>
   waitForExternalSecretSync example_k8s_at 0 ''api-credentials'' ''web'' 0 =
     \<lparr>w_synced = False, w_ready = False,
      w_error = Some ''Timeout waiting for ExternalSecret to sync''\<rparr>"
  by code_simp

text \<open>
  C3, amended. Each iteration tests the time-out first, then polls, then tests both
  conditions true, then the error message. A time-out that is not positive returns the
  timed-out result without a poll. Polls happen every \<open>latency + pollInterval\<close>
  milliseconds while the elapsed time is below the time-out: at the first poll where both
  conditions hold the result is \<open>{synced: true, ready: true}\<close>; at the first poll that
  shows an error message the result is that message, without waiting further; when every
  poll before the time-out is pending the result is the timed-out one. No status has both
  conditions true and an error message, so the order of these two tests is not
  observable.
\<close>

theorem wait_exits:
  fixes k8s_at :: "nat \<Rightarrow> cluster" and latency :: nat and name ns :: string and timeoutMs :: int
  defines "step \<equiv> latency + pollInterval"
  defines "result \<equiv> waitForExternalSecretSync k8s_at latency name ns timeoutMs"
  shows
   "(timeoutMs \<le> 0 \<longrightarrow> result = timed_out) \<and>
    (\<forall>k. int (k * step) < timeoutMs \<and>
          (\<forall>j<k. pending (status_at k8s_at name ns (j * step))) \<and>
          ready (status_at k8s_at name ns (k * step)) \<and>
          synced (status_at k8s_at name ns (k * step)) \<longrightarrow>
          result = \<lparr>w_synced = True, w_ready = True, w_error = None\<rparr>) \<and>
    (\<forall>k. int (k * step) < timeoutMs \<and>
          (\<forall>j<k. pending (status_at k8s_at name ns (j * step))) \<and>
          truthy_str (errorMessage (status_at k8s_at name ns (k * step))) \<longrightarrow>
          result = \<lparr>w_synced = False, w_ready = False,
                    w_error = errorMessage (status_at k8s_at name ns (k * step))\<rparr>) \<and>
    ((\<forall>k. int (k * step) < timeoutMs \<longrightarrow> pending (status_at k8s_at name ns (k * step))) \<longrightarrow>
          result = timed_out) \<and>
    (\<forall>t. \<not> (ready (status_at k8s_at name ns t) \<and> synced (status_at k8s_at name ns t) \<and>
             truthy_str (errorMessage (status_at k8s_at name ns t))))"
proof (intro conjI allI impI)
  assume "timeoutMs \<le> 0"
  then have "\<not> int 0 < timeoutMs" by simp
  then show "result = timed_out"
    unfolding result_def waitForExternalSecretSync_def by (rule wait_loop_timeout)
next
  fix k
  assume a: "int (k * step) < timeoutMs \<and>
          (\<forall>j<k. pending (status_at k8s_at name ns (j * step))) \<and>
          ready (status_at k8s_at name ns (k * step)) \<and>
          synced (status_at k8s_at name ns (k * step))"
  then have "wait_loop k8s_at latency name ns timeoutMs 0 =
             wait_loop k8s_at latency name ns timeoutMs (0 + k * (latency + pollInterval))"
    by (intro wait_loop_skip) (simp_all add: step_def)
  also from a have "\<dots> = \<lparr>w_synced = True, w_ready = True, w_error = None\<rparr>"
    by (intro wait_loop_synced) (simp_all add: step_def)
  finally show "result = \<lparr>w_synced = True, w_ready = True, w_error = None\<rparr>"
    by (simp add: result_def waitForExternalSecretSync_def)
next
  fix k
  assume a: "int (k * step) < timeoutMs \<and>
          (\<forall>j<k. pending (status_at k8s_at name ns (j * step))) \<and>
          truthy_str (errorMessage (status_at k8s_at name ns (k * step)))"
  then have "wait_loop k8s_at latency name ns timeoutMs 0 =
             wait_loop k8s_at latency name ns timeoutMs (0 + k * (latency + pollInterval))"
    by (intro wait_loop_skip) (simp_all add: step_def)
  also from a have "\<dots> = \<lparr>w_synced = False, w_ready = False,
        w_error = errorMessage (status_at k8s_at name ns (0 + k * (latency + pollInterval)))\<rparr>"
    by (intro wait_loop_error) (simp_all add: step_def)
  finally show "result = \<lparr>w_synced = False, w_ready = False,
                    w_error = errorMessage (status_at k8s_at name ns (k * step))\<rparr>"
    by (simp add: result_def waitForExternalSecretSync_def step_def)
next
  assume "\<forall>k. int (k * step) < timeoutMs \<longrightarrow> pending (status_at k8s_at name ns (k * step))"
  then have "wait_loop k8s_at latency name ns timeoutMs 0 = timed_out"
    by (intro wait_loop_all_pending) (simp add: step_def)
  then show "result = timed_out"
    by (simp add: result_def waitForExternalSecretSync_def)
next
  fix t
  show "\<not> (ready (status_at k8s_at name ns t) \<and> synced (status_at k8s_at name ns t) \<and>
             truthy_str (errorMessage (status_at k8s_at name ns t)))"
    unfolding status_at_def by (rule status_not_both_and_error)
qed

theorem wait_exits_witness:
  "pending (status_at example_k8s_at ''worker-credentials'' ''jobs'' 0) \<and>
   pending (status_at example_k8s_at ''worker-credentials'' ''jobs'' 2000) \<and>
   ready (status_at example_k8s_at ''worker-credentials'' ''jobs'' 4000) \<and>
   synced (status_at example_k8s_at ''worker-credentials'' ''jobs'' 4000) \<and>
   waitForExternalSecretSync example_k8s_at 0 ''worker-credentials'' ''jobs'' default_timeoutMs =
     \<lparr>w_synced = True, w_ready = True, w_error = None\<rparr> \<and>
   waitForExternalSecretSync example_k8s_at 0 ''api-credentials'' ''web'' default_timeoutMs =
     \<lparr>w_synced = False, w_ready = False,
      w_error = Some ''could not get secret data from provider''\<rparr> \<and>
   waitForExternalSecretSync example_k8s_at 0 ''worker-credentials'' ''jobs'' 3000 = timed_out"
proof -
  have p: "pending (status_at example_k8s_at ''worker-credentials'' ''jobs'' 0)"
    "pending (status_at example_k8s_at ''worker-credentials'' ''jobs'' 2000)"
    "ready (status_at example_k8s_at ''worker-credentials'' ''jobs'' 4000)"
    "synced (status_at example_k8s_at ''worker-credentials'' ''jobs'' 4000)"
    by code_simp+
  have e: "truthy_str (errorMessage (status_at example_k8s_at ''api-credentials'' ''web'' 0))"
    "errorMessage (status_at example_k8s_at ''api-credentials'' ''web'' 0) =
       Some ''could not get secret data from provider''"
    by code_simp+
  have two: "\<forall>j<2. pending (status_at example_k8s_at ''worker-credentials'' ''jobs''
      (j * (0 + pollInterval)))"
    using p(1,2) by (auto simp: pollInterval_def less_Suc_eq numeral_2_eq_2)
  from wait_exits [where k8s_at = example_k8s_at and latency = 0 and name = "''worker-credentials''"
      and ns = "''jobs''" and timeoutMs = default_timeoutMs]
  have "int (2 * (0 + pollInterval)) < default_timeoutMs \<and>
          (\<forall>j<2. pending (status_at example_k8s_at ''worker-credentials'' ''jobs''
              (j * (0 + pollInterval)))) \<and>
          ready (status_at example_k8s_at ''worker-credentials'' ''jobs'' (2 * (0 + pollInterval))) \<and>
          synced (status_at example_k8s_at ''worker-credentials'' ''jobs'' (2 * (0 + pollInterval))) \<longrightarrow>
        waitForExternalSecretSync example_k8s_at 0 ''worker-credentials'' ''jobs'' default_timeoutMs =
          \<lparr>w_synced = True, w_ready = True, w_error = None\<rparr>"
    by blast
  with two p(3,4) have r1:
    "waitForExternalSecretSync example_k8s_at 0 ''worker-credentials'' ''jobs'' default_timeoutMs =
          \<lparr>w_synced = True, w_ready = True, w_error = None\<rparr>"
    by (simp add: pollInterval_def default_timeoutMs_def)
  from wait_exits [where k8s_at = example_k8s_at and latency = 0 and name = "''api-credentials''"
      and ns = "''web''" and timeoutMs = default_timeoutMs]
  have "int (0 * (0 + pollInterval)) < default_timeoutMs \<and>
          (\<forall>j<0. pending (status_at example_k8s_at ''api-credentials'' ''web''
              (j * (0 + pollInterval)))) \<and>
          truthy_str (errorMessage (status_at example_k8s_at ''api-credentials'' ''web''
              (0 * (0 + pollInterval)))) \<longrightarrow>
        waitForExternalSecretSync example_k8s_at 0 ''api-credentials'' ''web'' default_timeoutMs =
          \<lparr>w_synced = False, w_ready = False,
           w_error = errorMessage (status_at example_k8s_at ''api-credentials'' ''web''
              (0 * (0 + pollInterval)))\<rparr>"
    by blast
  with e have r2:
    "waitForExternalSecretSync example_k8s_at 0 ''api-credentials'' ''web'' default_timeoutMs =
     \<lparr>w_synced = False, w_ready = False,
      w_error = Some ''could not get secret data from provider''\<rparr>"
    by (simp add: default_timeoutMs_def)
  have r3: "waitForExternalSecretSync example_k8s_at 0 ''worker-credentials'' ''jobs'' 3000 = timed_out"
    by code_simp
  from p r1 r2 r3 show ?thesis by (intro conjI)
qed

section \<open>Properties of the command line\<close>

lemma world_gcp_same [simp]: "w\<lparr>gcp := gcp w\<rparr> = w"
  by simp

lemma checkCommand_dry_run:
  "dry_run env \<Longrightarrow> checkCommand env w = (if configured env then Returned else Exited 1, w)"
  by (simp add: checkCommand_def)

lemma generateCommand_dry_run:
  "dry_run env \<Longrightarrow> generateCommand env w = (if configured env then Returned else Exited 1, w)"
  by (simp add: generateCommand_def Let_def)

text \<open>
  C7. In dry-run mode the workflow returns without a single request to the backend, so
  without any mutating operation, and without reading any delivery object: the step that
  validates is not run. The backend, its log of requests and the log of polls are after
  the run what they were before it. The same holds of the check and generate steps run
  on their own.
\<close>

theorem dry_run_changes_nothing:
  assumes "dry_run env"
  shows "syncCommand env w = (if configured env then Returned else Exited 1, w) \<and>
         gcp (snd (syncCommand env w)) = gcp w \<and>
         calls (gcp (snd (syncCommand env w))) = calls (gcp w) \<and>
         store (gcp (snd (syncCommand env w))) = store (gcp w) \<and>
         polls (snd (syncCommand env w)) = polls w \<and>
         snd (checkCommand env w) = w \<and>
         snd (generateCommand env w) = w"
proof -
  from assms have "syncCommand env w = (if configured env then Returned else Exited 1, w)"
    by (simp add: syncCommand_def discoverCommand_def checkCommand_dry_run
        generateCommand_dry_run)
  with assms show ?thesis
    by (simp add: checkCommand_dry_run generateCommand_dry_run)
qed

lemma example_run:
  "syncCommand example_env empty_world =
   (Returned,
    \<lparr>gcp =
       \<lparr>store =
          [(''acme-staging-api-key'', [\<lparr>payload = ''aL=x8jUd'', createTime = 0\<rparr>]),
           (''acme-staging-worker-key'', [\<lparr>payload = ''lW<I)u5o'', createTime = 0\<rparr>])],
        permitted = True, clock = 0,
        calls =
          [ListSecretsCall, GetSecretCall ''acme-staging-api-key'',
           GetSecretCall ''acme-staging-worker-key'', ListSecretsCall,
           GetSecretCall ''acme-staging-api-key'',
           GetSecretCall ''acme-staging-worker-key'',
           CreateSecretCall ''acme-staging-api-key'',
           AddSecretVersionCall ''acme-staging-api-key'' ''aL=x8jUd'',
           CreateSecretCall ''acme-staging-worker-key'',
           AddSecretVersionCall ''acme-staging-worker-key'' ''lW<I)u5o'']\<rparr>,
     polls = [(''api-credentials'', ''web''), (''worker-credentials'', ''jobs'')]\<rparr>)"
  by code_simp

theorem dry_run_changes_nothing_witness:
  "dry_run (example_env\<lparr>dry_run := True\<rparr>) \<and>
   syncCommand (example_env\<lparr>dry_run := True\<rparr>) empty_world = (Returned, empty_world) \<and>
   map fst (store (gcp (snd (syncCommand example_env empty_world)))) =
     [''acme-staging-api-key'', ''acme-staging-worker-key''] \<and>
   filter is_create_or_add (calls (gcp (snd (syncCommand example_env empty_world)))) =
     [CreateSecretCall ''acme-staging-api-key'',
      AddSecretVersionCall ''acme-staging-api-key'' ''aL=x8jUd'',
      CreateSecretCall ''acme-staging-worker-key'',
      AddSecretVersionCall ''acme-staging-worker-key'' ''lW<I)u5o''] \<and>
   polls (snd (syncCommand example_env empty_world)) =
     [(''api-credentials'', ''web''), (''worker-credentials'', ''jobs'')]"
proof -
  have d: "dry_run (example_env\<lparr>dry_run := True\<rparr>)" by simp
  have c: "configured (example_env\<lparr>dry_run := True\<rparr>)" by (simp add: example_env_def)
  from dry_run_changes_nothing [OF d, of empty_world] c
  have "syncCommand (example_env\<lparr>dry_run := True\<rparr>) empty_world = (Returned, empty_world)"
    by simp
  with d show ?thesis by (simp add: example_run)
qed

subsection \<open>The writes of generate\<close>





lemma store_logged [simp]: "store (logged c b) = store b"
  by (simp add: logged_def)












end
